theory Spec2Isabelle
  imports Complex_Main "HOL-Library.Log_Nat"
begin

section \<open>Machine numbers\<close>

text \<open>
  The source mixes \<^verbatim>\<open>size_t\<close> (64 bits), \<^verbatim>\<open>unsigned int\<close> (32 bits) and
  \<^verbatim>\<open>int\<close> (32 bits, two's complement). The values are kept as \<open>nat\<close> and \<open>int\<close>,
  and every conversion the source performs is written out with its wrap-around.
\<close>

definition to_size_t :: "nat \<Rightarrow> nat" where
  "to_size_t n = n mod 2 ^ 64"

definition to_uint :: "nat \<Rightarrow> nat" where
  "to_uint n = n mod 2 ^ 32"

definition uint_to_int :: "nat \<Rightarrow> int" where
  "uint_to_int n = (if n mod 2 ^ 32 < 2 ^ 31 then int (n mod 2 ^ 32) else int (n mod 2 ^ 32) - 2 ^ 32)"

definition int_to_uint :: "int \<Rightarrow> nat" where
  "int_to_uint x = nat (x mod 2 ^ 32)"

definition int_to_size_t :: "int \<Rightarrow> nat" where
  "int_to_size_t x = nat (x mod 2 ^ 64)"

text \<open>
  A \<^verbatim>\<open>float\<close> or \<^verbatim>\<open>double\<close> value is the rational number it denotes. Every
  operation of the source is the exact operation followed by rounding to the nearest
  value with 24 (\<open>f32\<close>) or 53 (\<open>f64\<close>) significant bits, ties to even. Below the
  smallest normal exponent (\<open>- 126\<close> and \<open>- 1022\<close>) the spacing of the values no longer
  shrinks: a subnormal result is a multiple of \<open>2 ^ - 149\<close> or \<open>2 ^ - 1074\<close>. Overflow
  to an infinity and NaN are outside this model: a result of a magnitude of
  \<open>2 ^ 128\<close> (\<open>2 ^ 1024\<close>) or more is kept as the rounded rational.
\<close>

type_synonym float = rat

definition pow2 :: "int \<Rightarrow> rat" where
  "pow2 k = (if 0 \<le> k then 2 ^ nat k else 1 / 2 ^ nat (- k))"

definition round_half_even :: "rat \<Rightarrow> int" where
  "round_half_even r =
     (let f = \<lfloor>r\<rfloor>; d = r - of_int f
      in if d < 1 / 2 then f else if 1 / 2 < d then f + 1 else if even f then f else f + 1)"

definition binary_exponent :: "rat \<Rightarrow> int" where
  "binary_exponent a =
     (if 1 \<le> a then int (floorlog 2 (nat \<lfloor>a\<rfloor>)) - 1
      else - int (floorlog 2 (nat (\<lceil>1 / a\<rceil> - 1))))"

definition round_to_precision :: "nat \<Rightarrow> int \<Rightarrow> rat \<Rightarrow> rat" where
  "round_to_precision p emin r =
     (if r = 0 then 0
      else let k = int p - 1 - max emin (binary_exponent \<bar>r\<bar>)
           in sgn r * of_int (round_half_even (\<bar>r\<bar> * pow2 k)) / pow2 k)"

definition f32 :: "rat \<Rightarrow> float" where
  "f32 = round_to_precision 24 (- 126)"

definition f64 :: "rat \<Rightarrow> float" where
  "f64 = round_to_precision 53 (- 1022)"

section \<open>Texels, textures and the external runtime\<close>

datatype hipTextureReadMode = hipReadModeElementType | hipReadModeNormalizedFloat

datatype hipTextureFilterMode = hipFilterModePoint | hipFilterModeLinear

datatype hipTextureAddressMode = hipAddressModeClamp | hipAddressModeBorder

text \<open>
  The template parameter \<^verbatim>\<open>T\<close> ranges over \<^verbatim>\<open>char\<close>, \<^verbatim>\<open>uchar\<close>, ..., \<^verbatim>\<open>float4\<close>:
  a channel kind, a channel width in bits and a number of channels. A value of such a
  type is the list of its channels.
\<close>

datatype ChannelKind = SignedChannel | UnsignedChannel | FloatChannel

record ChannelFormat =
  chanKind :: ChannelKind
  chanBits :: nat
  numChannels :: nat

datatype PixelValue = IntPixel "int list" | FloatPixel "float list"

definition sizeofT :: "ChannelFormat \<Rightarrow> nat" where
  "sizeofT T = chanBits T div 8 * numChannels T"

definition zeroPixel :: "ChannelFormat \<Rightarrow> PixelValue" where
  "zeroPixel T =
     (case chanKind T of
        FloatChannel \<Rightarrow> FloatPixel (replicate (numChannels T) 0)
      | _ \<Rightarrow> IntPixel (replicate (numChannels T) 0))"

definition float4 :: ChannelFormat where
  "float4 = \<lparr>chanKind = FloatChannel, chanBits = 32, numChannels = 4\<rparr>"

text \<open>
  \<^verbatim>\<open>hipExtent\<close> and \<^verbatim>\<open>mipmapLevelArray<T>\<close>: the host copy of one level, a buffer
  and its extent.
\<close>

record hipExtent =
  ext_width :: nat
  ext_height :: nat
  ext_depth :: nat

record mipmapLevelArray =
  lvl_data :: "PixelValue list"
  lvl_e :: hipExtent

text \<open>
  The device's mipmapped array: for every level the texels of its level array. The
  width \<^verbatim>\<open>hipArrayGetInfo\<close> reports for a level is the length of that array, so an
  allocator that breaks the halving contract is a store whose arrays have other lengths.
\<close>

type_synonym hipMipmappedArray = "nat \<Rightarrow> PixelValue list"

datatype hipResourceDesc =
    hipResourceTypeArray "PixelValue list"
  | hipResourceTypeMipmappedArray hipMipmappedArray

record hipTextureDesc =
  addressMode :: "hipTextureAddressMode list"
  filterMode :: hipTextureFilterMode
  readMode :: hipTextureReadMode
  normalizedCoords :: int
  mipmapFilterMode :: hipTextureFilterMode
  maxMipmapLevelClamp :: float

record hipTextureObject =
  texRes :: hipResourceDesc
  texDescr :: hipTextureDesc

text \<open>
  Every call of the HIP runtime is wrapped in \<^verbatim>\<open>HIP_CHECK\<close>, which ends the test case
  unless the call returned \<^verbatim>\<open>hipSuccess\<close>. Which calls succeed is decided by the
  runtime: an oracle from the call to its return code. A call is named by the function,
  the line of the source it stands on and the level it is made for.
\<close>

datatype hipError_t = hipSuccess | hipErrorCode nat

datatype hipFunction =
    hipGetMipmappedArrayLevel
  | hipArrayGetInfo
  | hipCreateTextureObject
  | hipCreateSurfaceObject
  | hipHostMalloc
  | hipDeviceSynchronize
  | hipGetLastError
  | hipDestroySurfaceObject
  | hipDestroyTextureObject
  | hipFreeArray
  | hipHostFree
  | hipMallocMipmappedArray
  | hipMemcpy3D
  | hipFreeMipmappedArray

datatype hipCall = HipCall hipFunction nat nat

text \<open>
  What the test case reports when it stops: a failed \<^verbatim>\<open>HIP_CHECK\<close>, one of the
  \<^verbatim>\<open>REQUIRE(false)\<close> of the source with the values its message prints, or an access
  outside a buffer (undefined behaviour in the source, an outcome of its own here so
  that its absence can be stated).
\<close>

record mismatchReport =
  mm_level :: float
  mm_index :: nat
  mm_coordinate :: float
  mm_gpuOutput :: PixelValue
  mm_cpuExpected :: PixelValue
  mm_data :: PixelValue

datatype failure =
    HipCheckFailed hipCall hipError_t
  | LevelSizeMismatch nat nat nat
  | NextLevelSizeMismatch nat nat nat
  | MaxLevelsMismatch nat nat
  | SamplingMismatch mismatchReport
  | OutOfBoundsAccess

text \<open>
  The collaborators that are not part of this file: the runtime's return codes, the
  hardware sampler (\<^verbatim>\<open>tex1D\<close>, \<^verbatim>\<open>tex1DLod\<close>; the first argument is the type the
  sample is returned as) and the helpers of \<^verbatim>\<open>hip_texture_helper.hh\<close>
  (\<open>TargetType\<close> is the return type of \<^verbatim>\<open>getNormalizedFloatType\<close> for a storage type).
  They are parameters of the model.
\<close>

record externals =
  hipApi :: "hipCall \<Rightarrow> hipError_t"
  tex1D :: "ChannelFormat \<Rightarrow> hipTextureObject \<Rightarrow> float \<Rightarrow> PixelValue"
  tex1DLod :: "ChannelFormat \<Rightarrow> hipTextureObject \<Rightarrow> float \<Rightarrow> float \<Rightarrow> PixelValue"
  getTypeFromNormalizedFloat :: "ChannelFormat \<Rightarrow> PixelValue \<Rightarrow> PixelValue"
  getNormalizedFloatType :: "ChannelFormat \<Rightarrow> PixelValue \<Rightarrow> PixelValue"
  TargetType :: "ChannelFormat \<Rightarrow> ChannelFormat"
  getExpectedValue ::
    "ChannelFormat \<Rightarrow> hipTextureAddressMode \<Rightarrow> hipTextureFilterMode \<Rightarrow> bool \<Rightarrow>
     nat \<Rightarrow> float \<Rightarrow> PixelValue list \<Rightarrow> PixelValue"
  hipTextureSamplingVerify ::
    "ChannelFormat \<Rightarrow> hipTextureFilterMode \<Rightarrow> bool \<Rightarrow> PixelValue \<Rightarrow> PixelValue \<Rightarrow> bool"

text \<open>The template arguments of one instantiation of the test.\<close>

record templateArgs =
  elemT :: ChannelFormat
  readModeT :: hipTextureReadMode
  filterModeT :: hipTextureFilterMode
  addressModeT :: hipTextureAddressMode

definition HIP_CHECK :: "externals \<Rightarrow> hipCall \<Rightarrow> (failure + 'a) \<Rightarrow> failure + 'a" where
  "HIP_CHECK X c k = (if hipApi X c = hipSuccess then k else Inl (HipCheckFailed c (hipApi X c)))"

section \<open>The kernels\<close>

text \<open>
  One thread is identified by \<^verbatim>\<open>blockIdx.x\<close>, \<^verbatim>\<open>blockDim.x\<close> and \<^verbatim>\<open>threadIdx.x\<close>.
  \<^verbatim>\<open>int x = blockIdx.x * blockDim.x + threadIdx.x\<close> is computed in
  \<^verbatim>\<open>unsigned int\<close> and converted to \<^verbatim>\<open>int\<close>.
\<close>

type_synonym threadId = "nat \<times> nat \<times> nat"

definition thread_x :: "threadId \<Rightarrow> int" where
  "thread_x tid = (case tid of (blockIdx, blockDim, threadIdx) \<Rightarrow>
     uint_to_int (to_uint (blockIdx * blockDim + threadIdx)))"

text \<open>\<^verbatim>\<open>float px = 1.0 / float(width)\<close>: a division in \<^verbatim>\<open>double\<close>, stored as \<^verbatim>\<open>float\<close>.\<close>

definition kernel_px :: "nat \<Rightarrow> float" where
  "kernel_px width = f32 (f64 (1 / f32 (of_nat width)))"

text \<open>
  \<^verbatim>\<open>surf1Dwrite<T>(t, surfOut, x * sizeof(T))\<close> stores one texel at a byte offset of the
  level array behind the surface; \<^verbatim>\<open>data[x] = t\<close> stores into the host buffer.
  \<open>None\<close> is an access outside the array.
\<close>

definition surf1Dwrite :: "ChannelFormat \<Rightarrow> PixelValue \<Rightarrow> PixelValue list \<Rightarrow> nat \<Rightarrow> PixelValue list option" where
  "surf1Dwrite T t surf byteOffset =
     (if sizeofT T \<noteq> 0 \<and> byteOffset mod sizeofT T = 0 \<and> byteOffset div sizeofT T < length surf
      then Some (surf[byteOffset div sizeofT T := t]) else None)"

definition store_at :: "PixelValue list \<Rightarrow> int \<Rightarrow> PixelValue \<Rightarrow> PixelValue list option" where
  "store_at buf x t = (if 0 \<le> x \<and> nat x < length buf then Some (buf[nat x := t]) else None)"

text \<open>
  The memory a thread of \<^verbatim>\<open>populateMipmapNextLevelArray\<close> writes: the level array
  behind \<^verbatim>\<open>surfOut\<close> and the buffer \<^verbatim>\<open>data\<close> (\<open>None\<close> for \<^verbatim>\<open>nullptr\<close>).
\<close>

type_synonym populateMem = "PixelValue list \<times> PixelValue list option"

definition record_at :: "PixelValue list option \<Rightarrow> int \<Rightarrow> PixelValue \<Rightarrow> PixelValue list option option" where
  "record_at data x t =
     (case data of
        None \<Rightarrow> Some None
      | Some buf \<Rightarrow> (case store_at buf x t of None \<Rightarrow> None | Some buf' \<Rightarrow> Some (Some buf')))"

text \<open>
  The value a thread of \<^verbatim>\<open>populateMipmapNextLevelArray\<close> computes from its \<open>x\<close>:
  \<^verbatim>\<open>tex1D<T>(texIn, x * px)\<close>, or \<^verbatim>\<open>tex1D<float4>(texIn, x * px)\<close> converted back by
  \<^verbatim>\<open>getTypeFromNormalizedFloat<T, float4>\<close>. The product \<^verbatim>\<open>x * px\<close> is a \<^verbatim>\<open>float\<close>
  multiplication of the converted \<open>x\<close>.
\<close>

definition populate_texel ::
  "externals \<Rightarrow> ChannelFormat \<Rightarrow> hipTextureReadMode \<Rightarrow> hipTextureObject \<Rightarrow> float \<Rightarrow> int \<Rightarrow> PixelValue" where
  "populate_texel X T rm texIn px x =
     (case rm of
        hipReadModeElementType \<Rightarrow> tex1D X T texIn (f32 (f32 (of_int x) * px))
      | hipReadModeNormalizedFloat \<Rightarrow>
          getTypeFromNormalizedFloat X T (tex1D X float4 texIn (f32 (f32 (of_int x) * px))))"

definition populateMipmapNextLevelArray ::
  "externals \<Rightarrow> ChannelFormat \<Rightarrow> hipTextureReadMode \<Rightarrow> hipTextureObject \<Rightarrow> nat \<Rightarrow>
   threadId \<Rightarrow> populateMem \<Rightarrow> populateMem option" where
  "populateMipmapNextLevelArray X T rm texIn width tid mem =
     (let x = thread_x tid;
          px = kernel_px width
      in if int_to_uint x < width then
           (let t = populate_texel X T rm texIn px x
            in case surf1Dwrite T t (fst mem) (to_size_t (int_to_size_t x * sizeofT T)) of
                 None \<Rightarrow> None
               | Some surf' \<Rightarrow>
                   (case record_at (snd mem) x t of
                      None \<Rightarrow> None
                    | Some data' \<Rightarrow> Some (surf', data')))
         else Some mem)"

text \<open>
  The value a thread of \<^verbatim>\<open>getMipmap\<close> computes:
  \<^verbatim>\<open>tex1DLod<T>(texMipmap, (x + offsetX) * px, lod)\<close>, with the sum and the product in
  \<^verbatim>\<open>float\<close>.
\<close>

definition getMipmap_texel ::
  "externals \<Rightarrow> ChannelFormat \<Rightarrow> hipTextureObject \<Rightarrow> float \<Rightarrow> float \<Rightarrow> float \<Rightarrow> int \<Rightarrow> PixelValue" where
  "getMipmap_texel X T texMipmap px offsetX lod x =
     tex1DLod X T texMipmap (f32 (f32 (f32 (of_int x) + offsetX) * px)) lod"

definition getMipmap ::
  "externals \<Rightarrow> ChannelFormat \<Rightarrow> hipTextureObject \<Rightarrow> nat \<Rightarrow> float \<Rightarrow> float \<Rightarrow>
   threadId \<Rightarrow> PixelValue list option \<Rightarrow> PixelValue list option option" where
  "getMipmap X T texMipmap width offsetX lod tid data =
     (let x = thread_x tid;
          px = kernel_px width
      in if int_to_uint x < width then
           record_at data x (getMipmap_texel X T texMipmap px offsetX lod x)
         else Some data)"

text \<open>
  A launch \<^verbatim>\<open><<<gridSize, blockSize>>>\<close> runs the kernel once per thread of the grid.
  The threads of these kernels write to pairwise different places, so they are run one
  after the other, block by block.
\<close>

definition grid_threads :: "nat \<Rightarrow> nat \<Rightarrow> threadId list" where
  "grid_threads gridSize blockSize =
     concat (map (\<lambda>b. map (\<lambda>t. (b, blockSize, t)) [0..<blockSize]) [0..<gridSize])"

fun launch :: "('t \<Rightarrow> 'm \<Rightarrow> 'm option) \<Rightarrow> 't list \<Rightarrow> 'm \<Rightarrow> 'm option" where
  "launch kern [] mem = Some mem"
| "launch kern (tid # tids) mem =
     (case kern tid mem of None \<Rightarrow> None | Some mem' \<Rightarrow> launch kern tids mem')"

text \<open>
  \<^verbatim>\<open>dim3 blockSize(16, 1, 1); dim3 gridSize((width + blockSize.x - 1) / blockSize.x, 1, 1)\<close>:
  the quotient is computed in \<^verbatim>\<open>size_t\<close> and stored in a 32-bit member.
\<close>

definition blockSize_x :: nat where
  "blockSize_x = 16"

definition gridSize_x :: "nat \<Rightarrow> nat" where
  "gridSize_x width = to_uint (to_size_t (width + blockSize_x - 1) div blockSize_x)"

text \<open>
  \<^verbatim>\<open>hipHostMalloc(&p, size)\<close> followed by \<^verbatim>\<open>memset(p, 0, size)\<close> with
  \<^verbatim>\<open>size = width * sizeof(T)\<close>: a zeroed buffer of as many texels as fit in \<open>size\<close> bytes.
\<close>

definition host_buffer :: "ChannelFormat \<Rightarrow> nat \<Rightarrow> PixelValue list" where
  "host_buffer T width = replicate (to_size_t (width * sizeofT T) div sizeofT T) (zeroPixel T)"

section \<open>Synthesis of the chain: populateMipmaps\<close>

text \<open>The variables of the loop: \<^verbatim>\<open>width\<close>, \<^verbatim>\<open>level\<close>, the device's levels and \<^verbatim>\<open>mipmapData\<close>.\<close>

record populateState =
  ps_width :: nat
  ps_level :: nat
  ps_mipmapArray :: hipMipmappedArray
  ps_mipmapData :: "mipmapLevelArray list"

text \<open>\<^verbatim>\<open>width = width >> 1 ? width >> 1 : 1\<close>\<close>

definition next_width :: "nat \<Rightarrow> nat" where
  "next_width width = (if drop_bit 1 width \<noteq> 0 then drop_bit 1 width else 1)"

text \<open>The texture object the loop creates on \<^verbatim>\<open>levelArray\<close>.\<close>

definition populate_texIn :: "templateArgs \<Rightarrow> PixelValue list \<Rightarrow> hipTextureObject" where
  "populate_texIn A levelArray =
     \<lparr>texRes = hipResourceTypeArray levelArray,
      texDescr = \<lparr>addressMode = [addressModeT A, addressModeT A, addressModeT A],
                  filterMode = filterModeT A,
                  readMode = readModeT A,
                  normalizedCoords = 1,
                  mipmapFilterMode = hipFilterModePoint,
                  maxMipmapLevelClamp = 0\<rparr>\<rparr>"

text \<open>
  One iteration of \<^verbatim>\<open>while (width != 1)\<close>, in the order of the source: the two level
  arrays, the check of the current level's size, the new width, the check of the next
  level's size, the texture and surface objects, the host buffer, the kernel launch, the
  clean-up, \<^verbatim>\<open>push_back\<close> and \<^verbatim>\<open>level++\<close>.
\<close>

definition populateMipmaps_body :: "externals \<Rightarrow> templateArgs \<Rightarrow> populateState \<Rightarrow> failure + populateState" where
  "populateMipmaps_body X A st =
     (let level = ps_level st;
          mipmapArray = ps_mipmapArray st
      in
      HIP_CHECK X (HipCall hipGetMipmappedArrayLevel 87 level) (
      HIP_CHECK X (HipCall hipGetMipmappedArrayLevel 88 level) (
      HIP_CHECK X (HipCall hipArrayGetInfo 91 level) (
      if length (mipmapArray level) \<noteq> ps_width st
      then Inl (LevelSizeMismatch level (length (mipmapArray level)) (ps_width st))
      else
      let width = next_width (ps_width st) in
      HIP_CHECK X (HipCall hipArrayGetInfo 101 level) (
      if length (mipmapArray (level + 1)) \<noteq> width
      then Inl (NextLevelSizeMismatch (level + 1) (length (mipmapArray (level + 1))) width)
      else
      let texIn = populate_texIn A (mipmapArray level) in
      HIP_CHECK X (HipCall hipCreateTextureObject 122 level) (
      HIP_CHECK X (HipCall hipCreateSurfaceObject 130 level) (
      HIP_CHECK X (HipCall hipHostMalloc 133 level) (
      case launch (populateMipmapNextLevelArray X (elemT A) (readModeT A) texIn (to_uint width))
                  (grid_threads (gridSize_x width) blockSize_x)
                  (mipmapArray (level + 1), Some (host_buffer (elemT A) width)) of
        None \<Rightarrow> Inl OutOfBoundsAccess
      | Some (surf', data') \<Rightarrow>
      HIP_CHECK X (HipCall hipDeviceSynchronize 142 level) (
      HIP_CHECK X (HipCall hipGetLastError 143 level) (
      HIP_CHECK X (HipCall hipDestroySurfaceObject 145 level) (
      HIP_CHECK X (HipCall hipDestroyTextureObject 146 level) (
      HIP_CHECK X (HipCall hipFreeArray 147 level) (
      HIP_CHECK X (HipCall hipFreeArray 148 level) (
      Inr \<lparr>ps_width = width,
           ps_level = level + 1,
           ps_mipmapArray = mipmapArray(level + 1 := surf'),
           ps_mipmapData = ps_mipmapData st @
             [\<lparr>lvl_data = (case data' of None \<Rightarrow> [] | Some buf \<Rightarrow> buf),
               lvl_e = \<lparr>ext_width = width, ext_height = 0, ext_depth = 0\<rparr>\<rparr>]\<rparr>
      ))))))))))))))"

partial_function (option) populateMipmaps_loop ::
  "externals \<Rightarrow> templateArgs \<Rightarrow> populateState \<Rightarrow> (failure + populateState) option" where
  "populateMipmaps_loop X A st =
     (if ps_width st \<noteq> 1 then
        (case populateMipmaps_body X A st of
           Inl f \<Rightarrow> Some (Inl f)
         | Inr st' \<Rightarrow> populateMipmaps_loop X A st')
      else Some (Inr st))"

definition populateMipmaps ::
  "externals \<Rightarrow> templateArgs \<Rightarrow> hipMipmappedArray \<Rightarrow> hipExtent \<Rightarrow> mipmapLevelArray list \<Rightarrow>
   (failure + hipMipmappedArray \<times> mipmapLevelArray list) option" where
  "populateMipmaps X A mipmapArray extent mipmapData =
     (case populateMipmaps_loop X A
             \<lparr>ps_width = ext_width extent, ps_level = 0,
              ps_mipmapArray = mipmapArray, ps_mipmapData = mipmapData\<rparr> of
        None \<Rightarrow> None
      | Some (Inl f) \<Rightarrow> Some (Inl f)
      | Some (Inr st) \<Rightarrow> Some (Inr (ps_mipmapArray st, ps_mipmapData st)))"

section \<open>Verification of the levels\<close>

definition HIP_CHECK_o :: "externals \<Rightarrow> hipCall \<Rightarrow> (failure + 'a) option \<Rightarrow> (failure + 'a) option" where
  "HIP_CHECK_o X c k = (if hipApi X c = hipSuccess then k else Some (Inl (HipCheckFailed c (hipApi X c))))"

text \<open>
  The loop \<^verbatim>\<open>for (unsigned int i = 0; i < width; i++)\<close> of \<^verbatim>\<open>verifyMipmapLevel\<close>.
  \<open>i\<close> is a 32-bit counter compared with a \<^verbatim>\<open>size_t\<close>, so the increment wraps. A
  mismatch ends the test case with the values the \<^verbatim>\<open>WARN\<close> message prints;
  \<^verbatim>\<open>printLog\<close> is \<^verbatim>\<open>false\<close>, so a match prints nothing.
\<close>

partial_function (option) verifyMipmapLevel_loop ::
  "externals \<Rightarrow> ChannelFormat \<Rightarrow> hipTextureFilterMode \<Rightarrow> hipTextureAddressMode \<Rightarrow>
   PixelValue list \<Rightarrow> PixelValue list \<Rightarrow> nat \<Rightarrow> float \<Rightarrow> float \<Rightarrow> nat \<Rightarrow>
   (failure + unit) option" where
  "verifyMipmapLevel_loop X T fm am hOutput data width level offsetX i =
     (if i < width then
        (if length hOutput \<le> i then Some (Inl OutOfBoundsAccess)
         else
           let cpuExpected = getExpectedValue X T am fm False width (f32 (f32 (of_nat i) + offsetX)) data;
               gpuOutput = hOutput ! i;
               match = hipTextureSamplingVerify X T fm False gpuOutput cpuExpected
           in if \<not> match then
                (if length data \<le> i then Some (Inl OutOfBoundsAccess)
                 else Some (Inl (SamplingMismatch
                        \<lparr>mm_level = level, mm_index = i,
                         mm_coordinate = f32 (f32 (of_nat i) + offsetX),
                         mm_gpuOutput = gpuOutput, mm_cpuExpected = cpuExpected,
                         mm_data = data ! i\<rparr>)))
              else verifyMipmapLevel_loop X T fm am hOutput data width level offsetX (to_uint (i + 1)))
      else Some (Inr ()))"

definition verifyMipmapLevel ::
  "externals \<Rightarrow> ChannelFormat \<Rightarrow> hipTextureFilterMode \<Rightarrow> hipTextureAddressMode \<Rightarrow>
   hipTextureObject \<Rightarrow> PixelValue list \<Rightarrow> nat \<Rightarrow> float \<Rightarrow> float \<Rightarrow> (failure + unit) option" where
  "verifyMipmapLevel X T fm am texMipmap data width level offsetX =
     (let l = nat \<lfloor>level\<rfloor> in
      HIP_CHECK_o X (HipCall hipHostMalloc 161 l) (
      case launch (getMipmap X T texMipmap (to_uint width) offsetX level)
                  (grid_threads (gridSize_x width) blockSize_x)
                  (Some (host_buffer T width)) of
        None \<Rightarrow> Some (Inl OutOfBoundsAccess)
      | Some hOutput \<Rightarrow>
      HIP_CHECK_o X (HipCall hipDeviceSynchronize 168 l) (
      HIP_CHECK_o X (HipCall hipGetLastError 169 l) (
      case verifyMipmapLevel_loop X T fm am (case hOutput of None \<Rightarrow> [] | Some buf \<Rightarrow> buf)
             data width level offsetX 0 of
        None \<Rightarrow> None
      | Some (Inl f) \<Rightarrow> Some (Inl f)
      | Some (Inr u) \<Rightarrow>
      HIP_CHECK_o X (HipCall hipHostFree 190 l) (Some (Inr ()))))))"

section \<open>The test: testMipmapTextureObj\<close>

text \<open>
  The body of the loop over the levels. In \<^verbatim>\<open>hipReadModeNormalizedFloat\<close> the level's
  data is converted by \<^verbatim>\<open>getNormalizedFloatType\<close> first (a loop with a 32-bit counter,
  which does not end for a width of \<open>2 ^ 32\<close> or more) and compared as \<open>TargetType\<close>.
\<close>

definition verify_level ::
  "externals \<Rightarrow> templateArgs \<Rightarrow> hipTextureObject \<Rightarrow> float \<Rightarrow> nat \<Rightarrow> mipmapLevelArray \<Rightarrow>
   (failure + unit) option" where
  "verify_level X A texMipmap offsetX level d =
     (case readModeT A of
        hipReadModeNormalizedFloat \<Rightarrow>
          if 2 ^ 32 \<le> ext_width (lvl_e d) then None
          else if length (lvl_data d) < ext_width (lvl_e d) then Some (Inl OutOfBoundsAccess)
          else verifyMipmapLevel X (TargetType X (elemT A)) (filterModeT A) (addressModeT A) texMipmap
                 (map (getNormalizedFloatType X (elemT A)) (take (ext_width (lvl_e d)) (lvl_data d)))
                 (ext_width (lvl_e d)) (f32 (of_nat level)) offsetX
      | hipReadModeElementType \<Rightarrow>
          verifyMipmapLevel X (elemT A) (filterModeT A) (addressModeT A) texMipmap
            (lvl_data d) (ext_width (lvl_e d)) (f32 (of_nat level)) offsetX)"

fun verify_levels ::
  "externals \<Rightarrow> templateArgs \<Rightarrow> hipTextureObject \<Rightarrow> float \<Rightarrow> nat \<Rightarrow> mipmapLevelArray list \<Rightarrow>
   (failure + unit) option" where
  "verify_levels X A texMipmap offsetX level [] = Some (Inr ())"
| "verify_levels X A texMipmap offsetX level (d # ds) =
     (case verify_level X A texMipmap offsetX level d of
        None \<Rightarrow> None
      | Some (Inl f) \<Rightarrow> Some (Inl f)
      | Some (Inr u) \<Rightarrow>
          HIP_CHECK_o X (HipCall hipHostFree 286 level)
            (verify_levels X A texMipmap offsetX (level + 1) ds))"

text \<open>
  What \<^verbatim>\<open>verifyMipmapLevel\<close> is instantiated with and handed by the loop body above:
  the type the samples are compared as, and the data the expected values are computed
  from.
\<close>

definition compared_type :: "externals \<Rightarrow> templateArgs \<Rightarrow> ChannelFormat" where
  "compared_type X A =
     (case readModeT A of
        hipReadModeNormalizedFloat \<Rightarrow> TargetType X (elemT A)
      | hipReadModeElementType \<Rightarrow> elemT A)"

definition compared_data :: "externals \<Rightarrow> templateArgs \<Rightarrow> mipmapLevelArray \<Rightarrow> PixelValue list" where
  "compared_data X A d =
     (case readModeT A of
        hipReadModeNormalizedFloat \<Rightarrow>
          map (getNormalizedFloatType X (elemT A)) (take (ext_width (lvl_e d)) (lvl_data d))
      | hipReadModeElementType \<Rightarrow> lvl_data d)"

text \<open>The texture object on the whole mipmapped array.\<close>

definition mipmap_texture :: "templateArgs \<Rightarrow> hipMipmappedArray \<Rightarrow> nat \<Rightarrow> hipTextureObject" where
  "mipmap_texture A mipmapArray maxLevels =
     \<lparr>texRes = hipResourceTypeMipmappedArray mipmapArray,
      texDescr = \<lparr>addressMode = [addressModeT A, addressModeT A, addressModeT A],
                  filterMode = filterModeT A,
                  readMode = readModeT A,
                  normalizedCoords = 1,
                  mipmapFilterMode = filterModeT A,
                  maxMipmapLevelClamp = f32 (of_nat (to_uint (maxLevels + 2 ^ 32 - 1)))\<rparr>\<rparr>"

text \<open>
  \<open>initial i\<close> is the value the initialisation loop stores at index \<open>i\<close> of the base
  level (random, or a smooth ramp for \<^verbatim>\<open>float\<close> texels under linear filtering), and
  \<open>allocated\<close> is the array \<^verbatim>\<open>hipMallocMipmappedArray\<close> returns.
  \<^verbatim>\<open>maxLevels = 1 + std::log2(width)\<close> is taken as the exact
  \<open>1 + \<lfloor>log\<^sub>2 width\<rfloor>\<close>, the value the \<^verbatim>\<open>double\<close> computation truncates to for a
  width from 1 below \<open>2 ^ 32\<close>; the initialisation loop counts in \<^verbatim>\<open>int\<close>, which
  covers the widths below \<open>2 ^ 31\<close>.
\<close>

definition testMipmapTextureObj ::
  "externals \<Rightarrow> templateArgs \<Rightarrow> (nat \<Rightarrow> PixelValue) \<Rightarrow> hipMipmappedArray \<Rightarrow> nat \<Rightarrow> float \<Rightarrow>
   (failure + unit) option" where
  "testMipmapTextureObj X A initial allocated width offsetX =
     HIP_CHECK_o X (HipCall hipHostMalloc 200 0) (
     if length (host_buffer (elemT A) width) < width then Some (Inl OutOfBoundsAccess) else
     let data = \<lparr>lvl_data = map initial [0..<width],
                 lvl_e = \<lparr>ext_width = width, ext_height = 0, ext_depth = 0\<rparr>\<rparr>;
         maxLevels = to_uint (floorlog 2 width)
     in
     HIP_CHECK_o X (HipCall hipMallocMipmappedArray 227 0) (
     HIP_CHECK_o X (HipCall hipGetMipmappedArrayLevel 231 0) (
     HIP_CHECK_o X (HipCall hipMemcpy3D 240 0) (
     if length (allocated 0) < width then Some (Inl OutOfBoundsAccess) else
     let mipmapArray = allocated(0 := lvl_data data @ drop width (allocated 0)) in
     case populateMipmaps X A mipmapArray (lvl_e data) [data] of
       None \<Rightarrow> None
     | Some (Inl f) \<Rightarrow> Some (Inl f)
     | Some (Inr (mipmapArray', mipmapData)) \<Rightarrow>
     if maxLevels \<noteq> length mipmapData
     then Some (Inl (MaxLevelsMismatch maxLevels (length mipmapData)))
     else
     HIP_CHECK_o X (HipCall hipCreateTextureObject 268 0) (
     case verify_levels X A (mipmap_texture A mipmapArray' maxLevels) offsetX 0 mipmapData of
       None \<Rightarrow> None
     | Some (Inl f) \<Rightarrow> Some (Inl f)
     | Some (Inr u) \<Rightarrow>
     HIP_CHECK_o X (HipCall hipDestroyTextureObject 290 0) (
     HIP_CHECK_o X (HipCall hipFreeMipmappedArray 291 0) (
     Some (Inr ()))))))))"

section \<open>The reference model of the specification\<close>

text \<open>
  The reference sampler (\<^verbatim>\<open>getExpectedValue\<close>), the comparison
  (\<^verbatim>\<open>hipTextureSamplingVerify\<close>) and the normalised read
  (\<^verbatim>\<open>getNormalizedFloatType\<close>) live in \<^verbatim>\<open>hip_texture_helper.hh\<close>, which is not
  among the sources. The definitions of this section follow the words of the
  specification instead.
\<close>

datatype AddressingMode = Clamp | Border

datatype FilterMode = Nearest | Linear

text \<open>
  Modelled from the spec: the Addressing Resolver (the body of \<^verbatim>\<open>getExpectedValue\<close>'s
  boundary handling is missing). Clamp returns \<open>max(0, min(index, width-1))\<close> with
  \<open>useBorder = false\<close>; Border returns the index unchanged when it lies in
  \<open>[0, width)\<close> and otherwise no index with \<open>useBorder = true\<close>.
\<close>

definition resolve :: "int \<Rightarrow> int \<Rightarrow> AddressingMode \<Rightarrow> int option \<times> bool" where
  "resolve index width mode =
     (case mode of
        Clamp \<Rightarrow> (Some (max 0 (min index (width - 1))), False)
      | Border \<Rightarrow> (if 0 \<le> index \<and> index < width then (Some index, False) else (None, True)))"

text \<open>
  Modelled from the spec: the zero-valued border sample the caller substitutes (missing
  with \<^verbatim>\<open>getExpectedValue\<close>), with the channels of the level's texels.
\<close>

definition zero_like :: "PixelValue \<Rightarrow> PixelValue" where
  "zero_like p = (case p of IntPixel cs \<Rightarrow> IntPixel (map (\<lambda>c. 0) cs) | FloatPixel cs \<Rightarrow> FloatPixel (map (\<lambda>c. 0) cs))"

definition border_value :: "PixelValue list \<Rightarrow> PixelValue" where
  "border_value level = (case level of [] \<Rightarrow> IntPixel [] | p # ps \<Rightarrow> zero_like p)"

text \<open>
  Modelled from the spec: the resolved pixel or the border value (missing with
  \<^verbatim>\<open>getExpectedValue\<close>). An index outside the sequence, which the resolver never
  returns for a level of the stated width, reads the border value.
\<close>

definition resolved_pixel :: "PixelValue list \<Rightarrow> int option \<times> bool \<Rightarrow> PixelValue" where
  "resolved_pixel level r =
     (case r of
        (Some i, False) \<Rightarrow> (if 0 \<le> i \<and> nat i < length level then level ! nat i else border_value level)
      | (Some i, True) \<Rightarrow> border_value level
      | (None, b) \<Rightarrow> border_value level)"

text \<open>
  Modelled from the spec: the channel-wise blend \<open>(1-frac)*v0 + frac*v1\<close> of the Linear
  filter (missing with \<^verbatim>\<open>getExpectedValue\<close>), computed on the channel values and
  rounded for integer storage, left as it is for floating-point storage.
\<close>

definition channels :: "PixelValue \<Rightarrow> rat list" where
  "channels p = (case p of IntPixel cs \<Rightarrow> map of_int cs | FloatPixel cs \<Rightarrow> cs)"

definition blend :: "rat \<Rightarrow> PixelValue \<Rightarrow> PixelValue \<Rightarrow> PixelValue" where
  "blend fr v0 v1 =
     (let cs = map (\<lambda>(a, b). (1 - fr) * a + fr * b) (zip (channels v0) (channels v1))
      in case v0 of IntPixel xs \<Rightarrow> IntPixel (map round cs) | FloatPixel xs \<Rightarrow> FloatPixel cs)"

text \<open>
  Modelled from the spec: the Filter Kernel \<open>sample(coord, level, width, mode, addressing)\<close>
  (the body of \<^verbatim>\<open>getExpectedValue\<close> is missing). \<open>coord\<close> is normalised; in texel
  units it is \<open>coord * width\<close>. Nearest takes the floor of the position in texel units;
  Linear takes \<open>pos = coord*width - 0.5\<close>, \<open>i0 = floor(pos)\<close>, \<open>frac = pos - i0\<close>,
  \<open>i1 = i0 + 1\<close> and blends the two resolved pixels.
\<close>

definition sample_texel_units :: "rat \<Rightarrow> PixelValue list \<Rightarrow> int \<Rightarrow> FilterMode \<Rightarrow> AddressingMode \<Rightarrow> PixelValue" where
  "sample_texel_units x level width mode addressing =
     (case mode of
        Nearest \<Rightarrow> resolved_pixel level (resolve \<lfloor>x\<rfloor> width addressing)
      | Linear \<Rightarrow>
          (let pos = x - 1 / 2;
               i0 = \<lfloor>pos\<rfloor>;
               fr = pos - of_int i0;
               i1 = i0 + 1
           in blend fr (resolved_pixel level (resolve i0 width addressing))
                         (resolved_pixel level (resolve i1 width addressing))))"

definition sample :: "rat \<Rightarrow> PixelValue list \<Rightarrow> int \<Rightarrow> FilterMode \<Rightarrow> AddressingMode \<Rightarrow> PixelValue" where
  "sample coord level width mode addressing =
     sample_texel_units (coord * of_int width) level width mode addressing"

text \<open>
  Modelled from the spec: the Level-of-Detail Reference Model (missing with
  \<^verbatim>\<open>getExpectedValue\<close>). \<open>lod\<close> is an integer-valued level, and the model dispatches
  to the Filter Kernel on that level of the chain, whose width is its length.
\<close>

definition sampleAtLevel :: "PixelValue list list \<Rightarrow> rat \<Rightarrow> rat \<Rightarrow> FilterMode \<Rightarrow> AddressingMode \<Rightarrow> PixelValue" where
  "sampleAtLevel chain coord lod mode addressing =
     (if 0 \<le> lod \<and> nat \<lfloor>lod\<rfloor> < length chain
      then sample coord (chain ! nat \<lfloor>lod\<rfloor>) (int (length (chain ! nat \<lfloor>lod\<rfloor>))) mode addressing
      else IntPixel [])"

text \<open>
  Modelled from the spec: the approximate-equality rule of the Verification Driver (the
  body of \<^verbatim>\<open>hipTextureSamplingVerify\<close> is missing): exact equality for integer
  storage, equality within a tolerance for floating-point and normalised storage.
\<close>

definition approx_equal :: "rat \<Rightarrow> PixelValue \<Rightarrow> PixelValue \<Rightarrow> bool" where
  "approx_equal tol observed expected =
     (case (observed, expected) of
        (IntPixel xs, IntPixel ys) \<Rightarrow> xs = ys
      | (FloatPixel xs, FloatPixel ys) \<Rightarrow> list_all2 (\<lambda>x y. \<bar>x - y\<bar> \<le> tol) xs ys
      | (IntPixel xs, FloatPixel ys) \<Rightarrow> False
      | (FloatPixel xs, IntPixel ys) \<Rightarrow> False)"

text \<open>
  Modelled from the spec: the \<open>NormalizedFloat\<close> read (the body of
  \<^verbatim>\<open>getNormalizedFloatType\<close> is missing). Integer storage is rescaled to the float range
  \<open>[0,1]\<close> (unsigned: the largest stored value reads as 1) or \<open>[-1,1]\<close> (signed: the
  largest stored value reads as 1, and nothing reads below -1).
\<close>

definition normalized_read :: "ChannelFormat \<Rightarrow> int \<Rightarrow> float" where
  "normalized_read T v =
     (case chanKind T of
        UnsignedChannel \<Rightarrow> f32 (of_int v / of_int (2 ^ chanBits T - 1))
      | SignedChannel \<Rightarrow> f32 (max (- 1) (of_int v / of_int (2 ^ (chanBits T - 1) - 1)))
      | FloatChannel \<Rightarrow> of_int v)"

definition getNormalizedFloatType_spec :: "ChannelFormat \<Rightarrow> PixelValue \<Rightarrow> PixelValue" where
  "getNormalizedFloatType_spec T p =
     (case p of IntPixel cs \<Rightarrow> FloatPixel (map (normalized_read T) cs) | FloatPixel cs \<Rightarrow> FloatPixel cs)"

text \<open>
  Modelled from the spec: how the helpers called by the source relate to the reference
  model (their bodies are missing). The texture enumerations name the specification's
  modes; \<^verbatim>\<open>getExpectedValue<T, addressMode, filterMode, normalizedCoords>(width, x, data)\<close>
  is the Filter Kernel on \<open>data\<close>, with \<open>x\<close> in texel units unless the coordinates are
  normalised; \<^verbatim>\<open>hipTextureSamplingVerify\<close> is the approximate-equality rule.
\<close>

definition addressing_of :: "hipTextureAddressMode \<Rightarrow> AddressingMode" where
  "addressing_of am = (case am of hipAddressModeClamp \<Rightarrow> Clamp | hipAddressModeBorder \<Rightarrow> Border)"

definition filter_of :: "hipTextureFilterMode \<Rightarrow> FilterMode" where
  "filter_of fm = (case fm of hipFilterModePoint \<Rightarrow> Nearest | hipFilterModeLinear \<Rightarrow> Linear)"

definition getExpectedValue_spec ::
  "ChannelFormat \<Rightarrow> hipTextureAddressMode \<Rightarrow> hipTextureFilterMode \<Rightarrow> bool \<Rightarrow>
   nat \<Rightarrow> float \<Rightarrow> PixelValue list \<Rightarrow> PixelValue" where
  "getExpectedValue_spec T am fm normalized width x data =
     (if normalized then sample x data (int width) (filter_of fm) (addressing_of am)
      else sample_texel_units x data (int width) (filter_of fm) (addressing_of am))"

definition hipTextureSamplingVerify_spec ::
  "rat \<Rightarrow> ChannelFormat \<Rightarrow> hipTextureFilterMode \<Rightarrow> bool \<Rightarrow> PixelValue \<Rightarrow> PixelValue \<Rightarrow> bool" where
  "hipTextureSamplingVerify_spec tol T fm sRGB outputData expected = approx_equal tol outputData expected"

text \<open>
  Modelled from the spec: a device that samples as the reference model does, the test
  double the specification proposes for the Device Executor (the hardware sampler is
  not part of the sources). It honours the descriptor's coordinate normalisation, filter
  mode and addressing mode, and reads elements as they are stored.
\<close>

definition reference_tex1D :: "ChannelFormat \<Rightarrow> hipTextureObject \<Rightarrow> float \<Rightarrow> PixelValue" where
  "reference_tex1D R tex x =
     (case texRes tex of
        hipResourceTypeArray level \<Rightarrow>
          (if normalizedCoords (texDescr tex) = 0
           then sample_texel_units x level (int (length level))
                  (filter_of (filterMode (texDescr tex))) (addressing_of (hd (addressMode (texDescr tex))))
           else sample x level (int (length level))
                  (filter_of (filterMode (texDescr tex))) (addressing_of (hd (addressMode (texDescr tex)))))
      | hipResourceTypeMipmappedArray m \<Rightarrow> IntPixel [])"

definition reference_tex1DLod :: "ChannelFormat \<Rightarrow> hipTextureObject \<Rightarrow> float \<Rightarrow> float \<Rightarrow> PixelValue" where
  "reference_tex1DLod R tex x lod =
     (case texRes tex of
        hipResourceTypeArray level \<Rightarrow> IntPixel []
      | hipResourceTypeMipmappedArray m \<Rightarrow>
          sample x (m (nat \<lfloor>lod\<rfloor>)) (int (length (m (nat \<lfloor>lod\<rfloor>))))
            (filter_of (filterMode (texDescr tex))) (addressing_of (hd (addressMode (texDescr tex)))))"

definition reference_externals :: "rat \<Rightarrow> externals" where
  "reference_externals tol =
     \<lparr>hipApi = (\<lambda>c. hipSuccess),
      tex1D = reference_tex1D,
      tex1DLod = reference_tex1DLod,
      getTypeFromNormalizedFloat = (\<lambda>T p. p),
      getNormalizedFloatType = getNormalizedFloatType_spec,
      TargetType = (\<lambda>T. T\<lparr>chanKind := FloatChannel, chanBits := 32\<rparr>),
      getExpectedValue = getExpectedValue_spec,
      hipTextureSamplingVerify = hipTextureSamplingVerify_spec tol\<rparr>"

section \<open>Example inputs\<close>

text \<open>
  A base level of five \<^verbatim>\<open>int\<close> texels, sampled with point filtering and clamping, on
  an array whose levels have the widths 5, 2 and 1.
\<close>

definition T_int :: ChannelFormat where
  "T_int = \<lparr>chanKind = SignedChannel, chanBits = 32, numChannels = 1\<rparr>"

definition T_uchar :: ChannelFormat where
  "T_uchar = \<lparr>chanKind = UnsignedChannel, chanBits = 8, numChannels = 1\<rparr>"

definition example_args :: templateArgs where
  "example_args =
     \<lparr>elemT = T_int, readModeT = hipReadModeElementType,
      filterModeT = hipFilterModePoint, addressModeT = hipAddressModeClamp\<rparr>"

definition example_base :: "PixelValue list" where
  "example_base = [IntPixel [10], IntPixel [20], IntPixel [30], IntPixel [40], IntPixel [50]]"

definition example_allocated :: hipMipmappedArray where
  "example_allocated =
     (\<lambda>level. if level = 0 then replicate 5 (IntPixel [0])
              else if level = 1 then replicate 2 (IntPixel [0])
              else replicate 1 (IntPixel [0]))"

definition example_level0 :: mipmapLevelArray where
  "example_level0 =
     \<lparr>lvl_data = example_base, lvl_e = \<lparr>ext_width = 5, ext_height = 0, ext_depth = 0\<rparr>\<rparr>"

definition example_state :: populateState where
  "example_state =
     \<lparr>ps_width = 5, ps_level = 0,
      ps_mipmapArray = example_allocated(0 := example_base),
      ps_mipmapData = [example_level0]\<rparr>"

section \<open>Evaluating the number model\<close>

lemma floor_divide_numeral: "\<lfloor>numeral a / numeral b :: rat\<rfloor> = numeral a div numeral b"
  using floor_divide_of_int_eq[of "numeral a" "numeral b", where ?'a = rat] by simp

lemma ceiling_divide_numeral: "\<lceil>numeral a / numeral b :: rat\<rceil> = - (- numeral a div numeral b)"
  using ceiling_divide_eq_div[of "numeral a" "numeral b", where ?'a = rat] by simp

lemma floorlog2_zero: "floorlog 2 0 = 0"
  by (simp add: floorlog_def)

lemma floorlog2_pos: "0 < n \<Longrightarrow> floorlog 2 n = floorlog 2 (n div 2) + 1"
  by (subst compute_floorlog) simp

lemmas float_eval = f32_def f64_def round_to_precision_def binary_exponent_def pow2_def
  round_half_even_def Let_def floorlog2_zero floorlog2_pos floor_divide_numeral ceiling_divide_numeral

lemma f32_zero [simp]: "f32 0 = 0"
  by (simp add: f32_def round_to_precision_def)

lemma f32_one [simp]: "f32 1 = 1"
  by (simp add: float_eval)

section \<open>Kernel launches\<close>

lemma launch_append:
  "launch kern (xs @ ys) mem = (case launch kern xs mem of None \<Rightarrow> None | Some mem' \<Rightarrow> launch kern ys mem')"
  by (induction xs arbitrary: mem) (auto split: option.splits)

lemma launch_map:
  "launch kern (map g xs) mem = launch (\<lambda>n. kern (g n)) xs mem"
  by (induction xs arbitrary: mem) (auto split: option.splits)

lemma grid_threads_upt:
  "0 < d \<Longrightarrow> grid_threads g d = map (\<lambda>n. (n div d, d, n mod d)) [0..<g * d]"
proof (induction g)
  case 0
  then show ?case by (simp add: grid_threads_def)
next
  case (Suc g)
  have blk: "map (\<lambda>t. (g, d, t)) [0..<d] = map (\<lambda>n. (n div d, d, n mod d)) [g * d..<g * d + d]"
    using Suc.prems
    by (intro nth_equalityI) (auto simp: add.commute[of "g * d"])
  have "[0..<Suc g * d] = [0..<g * d] @ [g * d..<g * d + d]"
    by (metis add.commute le_add1 mult_Suc upt_add_eq_append zero_le)
  then show ?case
    using Suc by (simp add: grid_threads_def blk)
qed

lemma thread_x_linear:
  "0 < d \<Longrightarrow> thread_x (n div d, d, n mod d) = uint_to_int (to_uint n)"
  by (simp add: thread_x_def)

lemma int_to_uint_uint_to_int: "int_to_uint (uint_to_int n) = n mod 2 ^ 32"
  by (simp add: int_to_uint_def uint_to_int_def nat_mod_distrib zmod_int)

lemma uint_to_int_small: "n < 2 ^ 31 \<Longrightarrow> uint_to_int (to_uint n) = int n"
  by (simp add: uint_to_int_def to_uint_def)

lemma prefix_written_step:
  "n < length xs \<Longrightarrow>
   (map f [0..<n] @ drop n xs)[n := v] = map f [0..<n] @ v # drop (Suc n) xs"
  by (simp add: list_update_append Cons_nth_drop_Suc[symmetric])

lemma populate_thread:
  assumes "0 < sizeofT T" "sizeofT T \<le> 16" "n < 2 ^ 32" "w \<le> 2 ^ 31"
  shows "populateMipmapNextLevelArray X T rm texIn w (n div 16, 16, n mod 16) (surf, Some buf) =
     (if n < w then
        (if n < length surf \<and> n < length buf
         then Some (surf[n := populate_texel X T rm texIn (kernel_px w) (int n)],
                    Some (buf[n := populate_texel X T rm texIn (kernel_px w) (int n)]))
         else None)
      else Some (surf, Some buf))"
proof (cases "n < w")
  case False
  have "int_to_uint (thread_x (n div 16, 16, n mod 16)) = n"
    using assms(3) by (simp add: thread_x_linear int_to_uint_uint_to_int to_uint_def)
  then show ?thesis
    using False by (simp add: populateMipmapNextLevelArray_def Let_def)
next
  case True
  then have n31: "n < 2 ^ 31" using assms by simp
  have x: "thread_x (n div 16, 16, n mod 16) = int n"
    using uint_to_int_small[OF n31] by (simp add: thread_x_linear)
  have g: "int_to_uint (int n) = n"
    using assms(3) by (simp add: int_to_uint_def nat_mod_distrib)
  have "n * sizeofT T \<le> 2 ^ 31 * 16"
    using n31 assms(2) by (intro mult_le_mono) auto
  then have off: "to_size_t (int_to_size_t (int n) * sizeofT T) = n * sizeofT T"
    using n31 by (simp add: to_size_t_def int_to_size_t_def nat_mod_distrib)
  show ?thesis
    using True assms(1)
    by (simp add: populateMipmapNextLevelArray_def x g off surf1Dwrite_def
        record_at_def store_at_def Let_def)
qed

lemma launch_populate_upt:
  assumes "0 < sizeofT T" "sizeofT T \<le> 16" "w \<le> 2 ^ 31" "N < 2 ^ 32"
    and "w \<le> length surf" "w \<le> length buf"
  shows "launch (\<lambda>n. populateMipmapNextLevelArray X T rm texIn w (n div 16, 16, n mod 16))
           [0..<N] (surf, Some buf) =
         Some (map (\<lambda>n. populate_texel X T rm texIn (kernel_px w) (int n)) [0..<min N w] @ drop (min N w) surf,
               Some (map (\<lambda>n. populate_texel X T rm texIn (kernel_px w) (int n)) [0..<min N w] @ drop (min N w) buf))"
  using assms(4)
proof (induction N)
  case 0
  then show ?case by simp
next
  case (Suc N)
  then have N: "N < 2 ^ 32" by simp
  let ?f = "\<lambda>n. populate_texel X T rm texIn (kernel_px w) (int n)"
  let ?k = "\<lambda>n. populateMipmapNextLevelArray X T rm texIn w (n div 16, 16, n mod 16)"
  have split: "launch ?k [0..<Suc N] (surf, Some buf) =
      (case launch ?k [0..<N] (surf, Some buf) of None \<Rightarrow> None | Some mem' \<Rightarrow> launch ?k [N] mem')"
    by (simp add: launch_append)
  note IH = Suc.IH[OF N]
  show ?case
  proof (cases "N < w")
    case True
    then have m: "min N w = N" "min (Suc N) w = Suc N" by simp_all
    have len: "N < length (map ?f [0..<N] @ drop N surf)" "N < length (map ?f [0..<N] @ drop N buf)"
      using True assms(5,6) by simp_all
    have len': "N < length surf" "N < length buf" using True assms(5,6) by simp_all
    have "launch ?k [0..<Suc N] (surf, Some buf) =
        Some ((map ?f [0..<N] @ drop N surf)[N := ?f N], Some ((map ?f [0..<N] @ drop N buf)[N := ?f N]))"
      unfolding split IH m
      using True len by (simp add: populate_thread[OF assms(1,2) N assms(3)])
    also have "\<dots> = Some (map ?f [0..<Suc N] @ drop (Suc N) surf, Some (map ?f [0..<Suc N] @ drop (Suc N) buf))"
      by (simp add: prefix_written_step[OF len'(1)] prefix_written_step[OF len'(2)])
    finally show ?thesis by (simp only: m)
  next
    case False
    then have m: "min N w = w" "min (Suc N) w = w" by simp_all
    show ?thesis
      unfolding split IH m
      using False by (simp add: populate_thread[OF assms(1,2) N assms(3)])
  qed
qed

lemma gridSize_x_eq: "w \<le> 2 ^ 31 \<Longrightarrow> gridSize_x w = (w + 15) div 16"
  by (simp add: gridSize_x_def blockSize_x_def to_uint_def to_size_t_def)

lemma host_buffer_length:
  "0 < sizeofT T \<Longrightarrow> sizeofT T \<le> 16 \<Longrightarrow> w \<le> 2 ^ 31 \<Longrightarrow> length (host_buffer T w) = w"
proof -
  assume a: "0 < sizeofT T" "sizeofT T \<le> 16" "w \<le> 2 ^ 31"
  have "w * sizeofT T \<le> 2 ^ 31 * 16" using a by (intro mult_le_mono) auto
  then have "to_size_t (w * sizeofT T) = w * sizeofT T" by (simp add: to_size_t_def)
  then show ?thesis using a by (simp add: host_buffer_def)
qed

lemma launch_populate_grid:
  assumes "0 < sizeofT T" "sizeofT T \<le> 16" "w \<le> 2 ^ 31"
    and "length surf = w" "length buf = w"
  shows "launch (populateMipmapNextLevelArray X T rm texIn (to_uint w))
           (grid_threads (gridSize_x w) blockSize_x) (surf, Some buf) =
         Some (map (\<lambda>n. populate_texel X T rm texIn (kernel_px w) (int n)) [0..<w],
               Some (map (\<lambda>n. populate_texel X T rm texIn (kernel_px w) (int n)) [0..<w]))"
proof -
  have u: "to_uint w = w" using assms(3) by (simp add: to_uint_def)
  have N: "(w + 15) div 16 * 16 < 2 ^ 32" using assms(3) by simp
  have ge: "w \<le> (w + 15) div 16 * 16" by simp
  show ?thesis
    using launch_populate_upt[OF assms(1,2,3) N, of surf buf X rm texIn] assms(4,5) ge
    by (simp add: u gridSize_x_eq[OF assms(3)] blockSize_x_def grid_threads_upt launch_map min_absorb2)
qed


lemma next_width_eq': "next_width w = max 1 (w div 2)"
  by (simp add: next_width_def drop_bit_eq_div max_def)

lemma next_width_less: "2 \<le> w \<Longrightarrow> next_width w < w \<and> 1 \<le> next_width w"
  by (simp add: next_width_eq')

text \<open>What a successful iteration has established.\<close>

lemma populateMipmaps_body_Inr:
  assumes "populateMipmaps_body X A st = Inr st'"
  shows "length (ps_mipmapArray st (ps_level st)) = ps_width st"
    and "length (ps_mipmapArray st (ps_level st + 1)) = next_width (ps_width st)"
    and "ps_width st' = next_width (ps_width st)"
    and "ps_level st' = ps_level st + 1"
    and "length (ps_mipmapData st') = length (ps_mipmapData st) + 1"
    and "\<exists>new. ps_mipmapData st' = ps_mipmapData st @ [new] \<and>
               ext_width (lvl_e new) = next_width (ps_width st)"
  using assms
  by (auto simp: populateMipmaps_body_def HIP_CHECK_def Let_def
      split: if_splits option.splits prod.splits)

lemma populateMipmaps_body_launch:
  assumes "populateMipmaps_body X A st = Inr st'"
  obtains surf' data' where
    "launch (populateMipmapNextLevelArray X (elemT A) (readModeT A)
               (populate_texIn A (ps_mipmapArray st (ps_level st)))
               (to_uint (next_width (ps_width st))))
            (grid_threads (gridSize_x (next_width (ps_width st))) blockSize_x)
            (ps_mipmapArray st (ps_level st + 1),
             Some (host_buffer (elemT A) (next_width (ps_width st)))) = Some (surf', data')"
    "ps_mipmapArray st' = (ps_mipmapArray st)(ps_level st + 1 := surf')"
    "ps_mipmapData st' = ps_mipmapData st @
       [\<lparr>lvl_data = (case data' of None \<Rightarrow> [] | Some buf \<Rightarrow> buf),
         lvl_e = \<lparr>ext_width = next_width (ps_width st), ext_height = 0, ext_depth = 0\<rparr>\<rparr>]"
proof -
  let ?L = "launch (populateMipmapNextLevelArray X (elemT A) (readModeT A)
               (populate_texIn A (ps_mipmapArray st (ps_level st)))
               (to_uint (next_width (ps_width st))))
            (grid_threads (gridSize_x (next_width (ps_width st))) blockSize_x)
            (ps_mipmapArray st (ps_level st + 1),
             Some (host_buffer (elemT A) (next_width (ps_width st))))"
  show thesis
  proof (cases ?L)
    case None
    then show ?thesis
      using assms
      by (simp add: populateMipmaps_body_def HIP_CHECK_def Let_def split: if_splits)
  next
    case (Some p)
    obtain surf' data' where p: "p = (surf', data')" by (cases p)
    show ?thesis
    proof (rule that[of surf' data'])
      show "?L = Some (surf', data')" using Some p by simp
      show "ps_mipmapArray st' = (ps_mipmapArray st)(ps_level st + 1 := surf')"
        using assms Some p
        by (auto simp: populateMipmaps_body_def HIP_CHECK_def Let_def split: if_splits)
      show "ps_mipmapData st' = ps_mipmapData st @
         [\<lparr>lvl_data = (case data' of None \<Rightarrow> [] | Some buf \<Rightarrow> buf),
           lvl_e = \<lparr>ext_width = next_width (ps_width st), ext_height = 0, ext_depth = 0\<rparr>\<rparr>]"
        using assms Some p
        by (auto simp: populateMipmaps_body_def HIP_CHECK_def Let_def split: if_splits)
    qed
  qed
qed

lemma populateMipmaps_loop_induct:
  assumes step: "\<And>st. (\<And>st'. ps_width st \<noteq> 1 \<Longrightarrow> populateMipmaps_body X A st = Inr st' \<Longrightarrow> P st') \<Longrightarrow> P st"
  shows "P st"
proof (induction "if ps_width st = 0 then 2 else ps_width st" arbitrary: st rule: less_induct)
  case less
  show ?case
  proof (rule step)
    fix st'
    assume a: "ps_width st \<noteq> 1" "populateMipmaps_body X A st = Inr st'"
    have "ps_width st' = max 1 (ps_width st div 2)"
      using populateMipmaps_body_Inr(3)[OF a(2)] by (simp add: next_width_eq')
    then have "(if ps_width st' = 0 then 2 else ps_width st') < (if ps_width st = 0 then 2 else ps_width st)"
      using a(1) by (auto simp: max_def)
    then show "P st'" by (rule less)
  qed
qed

lemma populateMipmaps_loop_total: "\<exists>r. populateMipmaps_loop X A st = Some r"
proof (induction st rule: populateMipmaps_loop_induct[where X = X and A = A])
  case (1 st)
  show ?case
  proof (cases "ps_width st = 1")
    case True
    then show ?thesis by (subst populateMipmaps_loop.simps) simp
  next
    case False
    show ?thesis
    proof (cases "populateMipmaps_body X A st")
      case (Inl f)
      then show ?thesis using False by (subst populateMipmaps_loop.simps) simp
    next
      case (Inr st')
      then show ?thesis using False 1[OF False Inr] by (subst populateMipmaps_loop.simps) simp
    qed
  qed
qed

lemma populateMipmaps_loop_stop: "ps_width st = 1 \<Longrightarrow> populateMipmaps_loop X A st = Some (Inr st)"
  by (subst populateMipmaps_loop.simps) simp

lemma populateMipmaps_loop_step:
  "ps_width st \<noteq> 1 \<Longrightarrow> populateMipmaps_body X A st = Inr st' \<Longrightarrow>
   populateMipmaps_loop X A st = populateMipmaps_loop X A st'"
  by (subst populateMipmaps_loop.simps) simp

lemma populateMipmaps_loop_fail:
  "ps_width st \<noteq> 1 \<Longrightarrow> populateMipmaps_body X A st = Inl f \<Longrightarrow>
   populateMipmaps_loop X A st = Some (Inl f)"
  by (subst populateMipmaps_loop.simps) simp


lemma floor_log2_half:
  assumes "2 \<le> (w::nat)"
  shows "nat \<lfloor>log 2 (real w)\<rfloor> = nat \<lfloor>log 2 (real (w div 2))\<rfloor> + 1"
proof -
  have "floorlog 2 w = floorlog 2 (w div 2) + 1"
    using assms by (subst compute_floorlog) simp
  moreover have "0 < w" "0 < w div 2" using assms by simp_all
  ultimately show ?thesis by (simp add: floorlog_def)
qed

lemma populateMipmaps_loop_length:
  "populateMipmaps_loop X A st = Some (Inr st') \<Longrightarrow> 1 \<le> ps_width st \<Longrightarrow>
   length (ps_mipmapData st') = length (ps_mipmapData st) + nat \<lfloor>log 2 (real (ps_width st))\<rfloor> \<and>
   ps_width st' = 1"
proof (induction st rule: populateMipmaps_loop_induct[where X = X and A = A])
  case (1 st)
  show ?case
  proof (cases "ps_width st = 1")
    case True
    then show ?thesis using "1.prems" by (simp add: populateMipmaps_loop_stop)
  next
    case False
    then have w2: "2 \<le> ps_width st" using "1.prems"(2) by simp
    show ?thesis
    proof (cases "populateMipmaps_body X A st")
      case (Inl f)
      then show ?thesis using False "1.prems"(1) by (simp add: populateMipmaps_loop_fail)
    next
      case (Inr st1)
      note facts = populateMipmaps_body_Inr[OF Inr]
      have w1: "ps_width st1 = ps_width st div 2" "1 \<le> ps_width st1"
        using facts(3) w2 by (simp_all add: next_width_eq')
      have len: "length (ps_mipmapData st1) = length (ps_mipmapData st) + 1"
        using facts(5) by simp
      have "populateMipmaps_loop X A st1 = Some (Inr st')"
        using "1.prems"(1) populateMipmaps_loop_step[OF False Inr] by simp
      from "1.IH"[OF False Inr this w1(2)] show ?thesis
        using len w1(1) floor_log2_half[OF w2] by simp
    qed
  qed
qed

lemma halving_snoc:
  assumes "D \<noteq> []"
    and "\<forall>k. Suc k < length D \<longrightarrow>
           ext_width (lvl_e (D ! Suc k)) = max 1 (ext_width (lvl_e (D ! k)) div 2)"
    and "ext_width (lvl_e new) = max 1 (ext_width (lvl_e (last D)) div 2)"
  shows "\<forall>k. Suc k < length (D @ [new]) \<longrightarrow>
           ext_width (lvl_e ((D @ [new]) ! Suc k)) = max 1 (ext_width (lvl_e ((D @ [new]) ! k)) div 2)"
proof (intro allI impI)
  fix k assume k: "Suc k < length (D @ [new])"
  show "ext_width (lvl_e ((D @ [new]) ! Suc k)) = max 1 (ext_width (lvl_e ((D @ [new]) ! k)) div 2)"
  proof (cases "Suc k < length D")
    case True
    then show ?thesis using assms(2) by (simp add: nth_append)
  next
    case False
    then have "Suc k = length D" using k by simp
    then have "k = length D - 1" by simp
    then show ?thesis using assms(1,3) by (simp add: nth_append last_conv_nth)
  qed
qed

lemma populateMipmaps_body_halving:
  assumes "populateMipmaps_body X A st = Inr st'"
    and "ps_mipmapData st \<noteq> []"
    and "ext_width (lvl_e (last (ps_mipmapData st))) = ps_width st"
    and "\<forall>k. Suc k < length (ps_mipmapData st) \<longrightarrow>
           ext_width (lvl_e (ps_mipmapData st ! Suc k)) =
           max 1 (ext_width (lvl_e (ps_mipmapData st ! k)) div 2)"
  shows "ps_mipmapData st' \<noteq> []"
    and "ext_width (lvl_e (last (ps_mipmapData st'))) = ps_width st'"
    and "\<forall>k. Suc k < length (ps_mipmapData st') \<longrightarrow>
           ext_width (lvl_e (ps_mipmapData st' ! Suc k)) =
           max 1 (ext_width (lvl_e (ps_mipmapData st' ! k)) div 2)"
    and "ps_mipmapData st' ! 0 = ps_mipmapData st ! 0"
proof -
  from populateMipmaps_body_Inr(6)[OF assms(1)] obtain new where
    D: "ps_mipmapData st' = ps_mipmapData st @ [new]"
    and new: "ext_width (lvl_e new) = next_width (ps_width st)"
    by auto
  show "ps_mipmapData st' \<noteq> []" by (simp add: D)
  show "ext_width (lvl_e (last (ps_mipmapData st'))) = ps_width st'"
    by (simp add: D new populateMipmaps_body_Inr(3)[OF assms(1)])
  show "\<forall>k. Suc k < length (ps_mipmapData st') \<longrightarrow>
           ext_width (lvl_e (ps_mipmapData st' ! Suc k)) =
           max 1 (ext_width (lvl_e (ps_mipmapData st' ! k)) div 2)"
    unfolding D
    by (rule halving_snoc[OF assms(2,4)]) (simp add: new assms(3) next_width_eq')
  show "ps_mipmapData st' ! 0 = ps_mipmapData st ! 0"
    using assms(2) by (simp add: D nth_append)
qed

lemma populateMipmaps_loop_halving:
  "populateMipmaps_loop X A st = Some (Inr st') \<Longrightarrow>
   ps_mipmapData st \<noteq> [] \<Longrightarrow>
   ext_width (lvl_e (last (ps_mipmapData st))) = ps_width st \<Longrightarrow>
   (\<forall>k. Suc k < length (ps_mipmapData st) \<longrightarrow>
           ext_width (lvl_e (ps_mipmapData st ! Suc k)) =
           max 1 (ext_width (lvl_e (ps_mipmapData st ! k)) div 2)) \<Longrightarrow>
   ps_mipmapData st' \<noteq> [] \<and>
   ext_width (lvl_e (last (ps_mipmapData st'))) = 1 \<and>
   (\<forall>k. Suc k < length (ps_mipmapData st') \<longrightarrow>
           ext_width (lvl_e (ps_mipmapData st' ! Suc k)) =
           max 1 (ext_width (lvl_e (ps_mipmapData st' ! k)) div 2)) \<and>
   ps_mipmapData st' ! 0 = ps_mipmapData st ! 0"
proof (induction st rule: populateMipmaps_loop_induct[where X = X and A = A])
  case (1 st)
  show ?case
  proof (cases "ps_width st = 1")
    case True
    then show ?thesis using "1.prems" by (simp add: populateMipmaps_loop_stop)
  next
    case False
    show ?thesis
    proof (cases "populateMipmaps_body X A st")
      case (Inl f)
      then show ?thesis using False "1.prems"(1) by (simp add: populateMipmaps_loop_fail)
    next
      case (Inr st1)
      note inv = populateMipmaps_body_halving[OF Inr "1.prems"(2,3,4)]
      have "populateMipmaps_loop X A st1 = Some (Inr st')"
        using "1.prems"(1) populateMipmaps_loop_step[OF False Inr] by simp
      from "1.IH"[OF False Inr this inv(1,2,3)] show ?thesis
        using inv(4) by simp
    qed
  qed
qed


lemma populateMipmaps_body_success:
  assumes api: "\<And>c. hipApi X c = hipSuccess"
    and len: "length (ps_mipmapArray st (ps_level st)) = ps_width st"
             "length (ps_mipmapArray st (ps_level st + 1)) = next_width (ps_width st)"
    and sz: "0 < sizeofT (elemT A)" "sizeofT (elemT A) \<le> 16" "next_width (ps_width st) \<le> 2 ^ 31"
  shows "populateMipmaps_body X A st =
     Inr \<lparr>ps_width = next_width (ps_width st),
          ps_level = ps_level st + 1,
          ps_mipmapArray = (ps_mipmapArray st)(ps_level st + 1 :=
             map (\<lambda>n. populate_texel X (elemT A) (readModeT A)
                         (populate_texIn A (ps_mipmapArray st (ps_level st)))
                         (kernel_px (next_width (ps_width st))) (int n))
                 [0..<next_width (ps_width st)]),
          ps_mipmapData = ps_mipmapData st @
             [\<lparr>lvl_data = map (\<lambda>n. populate_texel X (elemT A) (readModeT A)
                         (populate_texIn A (ps_mipmapArray st (ps_level st)))
                         (kernel_px (next_width (ps_width st))) (int n))
                 [0..<next_width (ps_width st)],
               lvl_e = \<lparr>ext_width = next_width (ps_width st), ext_height = 0, ext_depth = 0\<rparr>\<rparr>]\<rparr>"
proof -
  note l = launch_populate_grid[OF sz len(2) host_buffer_length[OF sz],
      of X "readModeT A" "populate_texIn A (ps_mipmapArray st (ps_level st))"]
  show ?thesis
    using len l by (simp add: populateMipmaps_body_def HIP_CHECK_def api Let_def)
qed

section \<open>The example run\<close>

lemma reference_api [simp]: "hipApi (reference_externals tol) c = hipSuccess"
  by (simp add: reference_externals_def)

lemma sizeofT_int [simp]: "sizeofT T_int = 4"
  by (simp add: sizeofT_def T_int_def)

lemma next_width_numeral [simp]: "next_width 5 = 2" "next_width 2 = 1"
  by (simp_all add: next_width_eq')

lemma populateMipmaps_body_success_ex:
  assumes "\<And>c. hipApi X c = hipSuccess"
    and "length (ps_mipmapArray st (ps_level st)) = ps_width st"
    and "length (ps_mipmapArray st (ps_level st + 1)) = next_width (ps_width st)"
    and "0 < sizeofT (elemT A)" "sizeofT (elemT A) \<le> 16" "next_width (ps_width st) \<le> 2 ^ 31"
  shows "\<exists>st'. populateMipmaps_body X A st = Inr st' \<and>
           ps_width st' = next_width (ps_width st) \<and>
           ps_level st' = ps_level st + 1 \<and>
           length (ps_mipmapArray st' (ps_level st + 1)) = next_width (ps_width st) \<and>
           (\<forall>k. k \<noteq> ps_level st + 1 \<longrightarrow> ps_mipmapArray st' k = ps_mipmapArray st k) \<and>
           length (ps_mipmapData st') = length (ps_mipmapData st) + 1"
  by (simp add: populateMipmaps_body_success[OF assms])

lemma example_first_step:
  "\<exists>st1. populateMipmaps_body (reference_externals tol) example_args example_state = Inr st1 \<and>
         ps_width st1 = 2 \<and> ps_level st1 = 1 \<and> length (ps_mipmapArray st1 1) = 2 \<and>
         ps_mipmapArray st1 2 = [IntPixel [0]] \<and> ps_mipmapArray st1 0 = example_base \<and>
         length (ps_mipmapData st1) = 2"
proof -
  have "\<exists>st'. populateMipmaps_body (reference_externals tol) example_args example_state = Inr st' \<and>
           ps_width st' = next_width (ps_width example_state) \<and>
           ps_level st' = ps_level example_state + 1 \<and>
           length (ps_mipmapArray st' (ps_level example_state + 1)) = next_width (ps_width example_state) \<and>
           (\<forall>k. k \<noteq> ps_level example_state + 1 \<longrightarrow> ps_mipmapArray st' k = ps_mipmapArray example_state k) \<and>
           length (ps_mipmapData st') = length (ps_mipmapData example_state) + 1"
    by (rule populateMipmaps_body_success_ex)
       (simp_all add: example_state_def example_args_def example_allocated_def example_base_def)
  then obtain st1 where st1:
    "populateMipmaps_body (reference_externals tol) example_args example_state = Inr st1"
    "ps_width st1 = next_width (ps_width example_state)"
    "ps_level st1 = ps_level example_state + 1"
    "length (ps_mipmapArray st1 (ps_level example_state + 1)) = next_width (ps_width example_state)"
    "\<And>k. k \<noteq> ps_level example_state + 1 \<Longrightarrow> ps_mipmapArray st1 k = ps_mipmapArray example_state k"
    "length (ps_mipmapData st1) = length (ps_mipmapData example_state) + 1"
    by blast
  have "ps_mipmapArray st1 2 = ps_mipmapArray example_state 2"
    by (rule st1(5)) (simp add: example_state_def)
  moreover have "ps_mipmapArray st1 0 = ps_mipmapArray example_state 0"
    by (rule st1(5)) (simp add: example_state_def)
  ultimately show ?thesis
    using st1(1,2,3,4,6)
    by (intro exI[of _ st1]) (simp add: example_state_def example_allocated_def)
qed

lemma example_second_step:
  assumes "ps_width st1 = 2" "ps_level st1 = 1" "length (ps_mipmapArray st1 1) = 2"
    "ps_mipmapArray st1 2 = [IntPixel [0]]"
  shows "\<exists>st2. populateMipmaps_body (reference_externals tol) example_args st1 = Inr st2 \<and>
         ps_width st2 = 1 \<and> length (ps_mipmapData st2) = length (ps_mipmapData st1) + 1"
proof -
  have l2: "ps_level st1 + 1 = 2" using assms(2) by simp
  have "\<exists>st'. populateMipmaps_body (reference_externals tol) example_args st1 = Inr st' \<and>
           ps_width st' = next_width (ps_width st1) \<and>
           ps_level st' = ps_level st1 + 1 \<and>
           length (ps_mipmapArray st' (ps_level st1 + 1)) = next_width (ps_width st1) \<and>
           (\<forall>k. k \<noteq> ps_level st1 + 1 \<longrightarrow> ps_mipmapArray st' k = ps_mipmapArray st1 k) \<and>
           length (ps_mipmapData st') = length (ps_mipmapData st1) + 1"
  proof (rule populateMipmaps_body_success_ex)
    show "length (ps_mipmapArray st1 (ps_level st1)) = ps_width st1"
      using assms by simp
    show "length (ps_mipmapArray st1 (ps_level st1 + 1)) = next_width (ps_width st1)"
      unfolding l2 using assms by simp
    show "next_width (ps_width st1) \<le> 2 ^ 31"
      using assms by simp
  qed (simp_all add: example_args_def)
  then show ?thesis
    by (auto simp: assms(1))
qed

lemma example_loop_success:
  "\<exists>st'. populateMipmaps_loop (reference_externals tol) example_args example_state = Some (Inr st')"
proof -
  obtain st1 where st1: "populateMipmaps_body (reference_externals tol) example_args example_state = Inr st1"
    "ps_width st1 = 2" "ps_level st1 = 1" "length (ps_mipmapArray st1 1) = 2"
    "ps_mipmapArray st1 2 = [IntPixel [0]]"
    using example_first_step[of tol] by blast
  obtain st2 where st2: "populateMipmaps_body (reference_externals tol) example_args st1 = Inr st2"
    "ps_width st2 = 1"
    using example_second_step[OF st1(2-5), of tol] by blast
  have "populateMipmaps_loop (reference_externals tol) example_args example_state =
        populateMipmaps_loop (reference_externals tol) example_args st1"
    by (rule populateMipmaps_loop_step[OF _ st1(1)]) (simp add: example_state_def)
  also have "\<dots> = populateMipmaps_loop (reference_externals tol) example_args st2"
    by (rule populateMipmaps_loop_step[OF _ st2(1)]) (simp add: st1)
  also have "\<dots> = Some (Inr st2)"
    by (rule populateMipmaps_loop_stop[OF st2(2)])
  finally show ?thesis by blast
qed

section \<open>The claims about the synthesis loop\<close>

text \<open>
  Claim C9. For every base width of at least 1 the synthesis loop terminates:
  \<^verbatim>\<open>populateMipmaps\<close> returns a result; for a base width of 1 it returns at once,
  with the array and \<^verbatim>\<open>mipmapData\<close> untouched, so no synthesis step runs; and from any
  state of the loop whose width is at least 1 the loop returns, stops as soon as the
  width is 1, and otherwise an iteration that completes leaves a width that is
  \<^verbatim>\<open>width >> 1 ? width >> 1 : 1\<close>, strictly smaller and still at least 1.
\<close>

theorem populateMipmaps_terminates:
  assumes "1 \<le> ext_width extent"
  shows "(\<exists>r. populateMipmaps X A mipmapArray extent mipmapData = Some r) \<and>
         (ext_width extent = 1 \<longrightarrow>
            populateMipmaps X A mipmapArray extent mipmapData = Some (Inr (mipmapArray, mipmapData))) \<and>
         (\<forall>st::populateState. 1 \<le> ps_width st \<longrightarrow>
            (\<exists>r. populateMipmaps_loop X A st = Some r) \<and>
            (ps_width st = 1 \<longrightarrow> populateMipmaps_loop X A st = Some (Inr st)) \<and>
            (ps_width st \<noteq> 1 \<longrightarrow>
               (\<forall>st'. populateMipmaps_body X A st = Inr st' \<longrightarrow>
                  ps_width st' = next_width (ps_width st) \<and>
                  ps_width st' < ps_width st \<and> 1 \<le> ps_width st')))"
proof (intro conjI allI impI)
  obtain r where r: "populateMipmaps_loop X A
      \<lparr>ps_width = ext_width extent, ps_level = 0, ps_mipmapArray = mipmapArray,
       ps_mipmapData = mipmapData\<rparr> = Some r"
    using populateMipmaps_loop_total by blast
  then show "\<exists>r. populateMipmaps X A mipmapArray extent mipmapData = Some r"
    by (cases r) (simp_all add: populateMipmaps_def)
next
  assume "ext_width extent = 1"
  then show "populateMipmaps X A mipmapArray extent mipmapData = Some (Inr (mipmapArray, mipmapData))"
    by (simp add: populateMipmaps_def populateMipmaps_loop_stop)
next
  fix st :: populateState show "\<exists>r. populateMipmaps_loop X A st = Some r"
    by (rule populateMipmaps_loop_total)
next
  fix st :: populateState assume "ps_width st = 1"
  then show "populateMipmaps_loop X A st = Some (Inr st)"
    by (rule populateMipmaps_loop_stop)
next
  fix st st' :: populateState
  assume a: "1 \<le> ps_width st" "ps_width st \<noteq> 1" "populateMipmaps_body X A st = Inr st'"
  show "ps_width st' = next_width (ps_width st)"
    by (rule populateMipmaps_body_Inr(3)[OF a(3)])
  then show "ps_width st' < ps_width st" "1 \<le> ps_width st'"
    using a(1,2) next_width_less[of "ps_width st"] by simp_all
qed

theorem populateMipmaps_terminates_witness:
  "1 \<le> ext_width (lvl_e example_level0) \<and>
   (\<exists>r. populateMipmaps (reference_externals 0) example_args (ps_mipmapArray example_state)
           (lvl_e example_level0) [example_level0] = Some r) \<and>
   (\<exists>st'. populateMipmaps_body (reference_externals 0) example_args example_state = Inr st' \<and>
           ps_width st' = next_width (ps_width example_state) \<and>
           ps_width st' < ps_width example_state \<and> 1 \<le> ps_width st')"
proof -
  have h: "1 \<le> ext_width (lvl_e example_level0)"
    by (simp add: example_level0_def)
  note t = populateMipmaps_terminates[OF h, of "reference_externals 0" example_args
      "ps_mipmapArray example_state" "[example_level0]"]
  obtain st1 where st1: "populateMipmaps_body (reference_externals 0) example_args example_state = Inr st1"
    using example_first_step[of 0] by blast
  have w: "1 \<le> ps_width example_state" "ps_width example_state \<noteq> 1"
    by (simp_all add: example_state_def)
  from t w st1 have "ps_width st1 = next_width (ps_width example_state) \<and>
      ps_width st1 < ps_width example_state \<and> 1 \<le> ps_width st1"
    by blast
  with h t st1 show ?thesis by blast
qed

lemma populateMipmaps_Inr_loop:
  assumes "populateMipmaps X A mipmapArray extent mipmapData = Some (Inr (mipmapArray', chain))"
  obtains st' where
    "populateMipmaps_loop X A
       \<lparr>ps_width = ext_width extent, ps_level = 0, ps_mipmapArray = mipmapArray,
        ps_mipmapData = mipmapData\<rparr> = Some (Inr st')"
    "ps_mipmapArray st' = mipmapArray'" "ps_mipmapData st' = chain"
  using assms
  by (auto simp: populateMipmaps_def split: option.splits sum.splits)

lemma example_populateMipmaps:
  "\<exists>m' chain. populateMipmaps (reference_externals tol) example_args (ps_mipmapArray example_state)
      (lvl_e example_level0) [example_level0] = Some (Inr (m', chain))"
proof -
  obtain st' where "populateMipmaps_loop (reference_externals tol) example_args example_state = Some (Inr st')"
    using example_loop_success by blast
  then show ?thesis
    by (simp add: populateMipmaps_def example_state_def example_level0_def)
qed

lemma floor_log2_5: "nat \<lfloor>log 2 (real 5)\<rfloor> = 2"
proof -
  have "floorlog 2 5 = 3"
    by (simp add: compute_floorlog)
  then show ?thesis
    by (simp add: floorlog_def)
qed

text \<open>
  Claim C2. For every base width of at least 1, the chain that \<^verbatim>\<open>populateMipmaps\<close>
  returns when it is called as \<^verbatim>\<open>testMipmapTextureObj\<close> calls it (with the base level as
  the only entry of \<^verbatim>\<open>mipmapData\<close>) has exactly \<open>1 + \<lfloor>log\<^sub>2 baseWidth\<rfloor>\<close> levels, and
  its last level has width 1.
\<close>

theorem populateMipmaps_chain_length:
  assumes "1 \<le> ext_width extent"
    and "ext_width (lvl_e level0) = ext_width extent"
    and "populateMipmaps X A mipmapArray extent [level0] = Some (Inr (mipmapArray', chain))"
  shows "length chain = 1 + nat \<lfloor>log 2 (real (ext_width extent))\<rfloor> \<and>
         ext_width (lvl_e (last chain)) = 1"
proof -
  let ?st = "\<lparr>ps_width = ext_width extent, ps_level = 0, ps_mipmapArray = mipmapArray,
               ps_mipmapData = [level0]\<rparr>"
  obtain st' where st': "populateMipmaps_loop X A ?st = Some (Inr st')" "ps_mipmapData st' = chain"
    using populateMipmaps_Inr_loop[OF assms(3)] by blast
  have "length (ps_mipmapData st') = length (ps_mipmapData ?st) + nat \<lfloor>log 2 (real (ps_width ?st))\<rfloor>"
    using populateMipmaps_loop_length[OF st'(1)] assms(1) by simp
  then have len: "length chain = 1 + nat \<lfloor>log 2 (real (ext_width extent))\<rfloor>"
    using st'(2) by simp
  have "ext_width (lvl_e (last (ps_mipmapData st'))) = 1"
    using populateMipmaps_loop_halving[OF st'(1)] assms(2) by simp
  then show ?thesis
    using len st'(2) by simp
qed

theorem populateMipmaps_chain_length_witness:
  "1 \<le> ext_width (lvl_e example_level0) \<and>
   (\<exists>m' chain. populateMipmaps (reference_externals 0) example_args (ps_mipmapArray example_state)
      (lvl_e example_level0) [example_level0] = Some (Inr (m', chain)) \<and>
      length chain = 3 \<and> ext_width (lvl_e (last chain)) = 1)"
proof -
  obtain m' chain where run: "populateMipmaps (reference_externals 0) example_args
      (ps_mipmapArray example_state) (lvl_e example_level0) [example_level0] = Some (Inr (m', chain))"
    using example_populateMipmaps by blast
  have h: "1 \<le> ext_width (lvl_e example_level0)"
    by (simp add: example_level0_def)
  have "length chain = 1 + nat \<lfloor>log 2 (real (ext_width (lvl_e example_level0)))\<rfloor> \<and>
        ext_width (lvl_e (last chain)) = 1"
    using populateMipmaps_chain_length[OF h refl run] .
  moreover have "ext_width (lvl_e example_level0) = 5"
    by (simp add: example_level0_def)
  ultimately have "length chain = 3 \<and> ext_width (lvl_e (last chain)) = 1"
    using floor_log2_5 by simp
  with h run show ?thesis by blast
qed

text \<open>
  Claim C3. In the chain that \<^verbatim>\<open>populateMipmaps\<close> returns for the base level, level 0
  has the base width, every level \<open>k + 1\<close> has the width \<open>max 1 (width k >> 1)\<close>, and the
  last level has width 1. The halving relation is an invariant of the loop: an
  iteration that completes from a state whose \<^verbatim>\<open>mipmapData\<close> satisfies it (and ends with
  the level of the current width) leaves a state that satisfies it again.
\<close>

theorem populateMipmaps_halving:
  assumes "ext_width (lvl_e level0) = ext_width extent"
    and "populateMipmaps X A mipmapArray extent [level0] = Some (Inr (mipmapArray', chain))"
  shows "ext_width (lvl_e (chain ! 0)) = ext_width extent \<and>
         (\<forall>k. Suc k < length chain \<longrightarrow>
            ext_width (lvl_e (chain ! Suc k)) = max 1 (drop_bit 1 (ext_width (lvl_e (chain ! k))))) \<and>
         ext_width (lvl_e (last chain)) = 1 \<and>
         (\<forall>st st'.
            populateMipmaps_body X A st = Inr st' \<and>
            ps_mipmapData st \<noteq> [] \<and>
            ext_width (lvl_e (last (ps_mipmapData st))) = ps_width st \<and>
            (\<forall>k. Suc k < length (ps_mipmapData st) \<longrightarrow>
               ext_width (lvl_e (ps_mipmapData st ! Suc k)) =
               max 1 (drop_bit 1 (ext_width (lvl_e (ps_mipmapData st ! k))))) \<longrightarrow>
            ps_mipmapData st' \<noteq> [] \<and>
            ext_width (lvl_e (last (ps_mipmapData st'))) = ps_width st' \<and>
            (\<forall>k. Suc k < length (ps_mipmapData st') \<longrightarrow>
               ext_width (lvl_e (ps_mipmapData st' ! Suc k)) =
               max 1 (drop_bit 1 (ext_width (lvl_e (ps_mipmapData st' ! k))))))"
proof -
  let ?st = "\<lparr>ps_width = ext_width extent, ps_level = 0, ps_mipmapArray = mipmapArray,
               ps_mipmapData = [level0]\<rparr>"
  obtain st' where st': "populateMipmaps_loop X A ?st = Some (Inr st')" "ps_mipmapData st' = chain"
    using populateMipmaps_Inr_loop[OF assms(2)] by blast
  have "ps_mipmapData st' \<noteq> [] \<and>
     ext_width (lvl_e (last (ps_mipmapData st'))) = 1 \<and>
     (\<forall>k. Suc k < length (ps_mipmapData st') \<longrightarrow>
           ext_width (lvl_e (ps_mipmapData st' ! Suc k)) =
           max 1 (ext_width (lvl_e (ps_mipmapData st' ! k)) div 2)) \<and>
     ps_mipmapData st' ! 0 = ps_mipmapData ?st ! 0"
    by (rule populateMipmaps_loop_halving[OF st'(1)]) (simp_all add: assms(1))
  then have chain: "ext_width (lvl_e (chain ! 0)) = ext_width extent"
    "\<forall>k. Suc k < length chain \<longrightarrow>
       ext_width (lvl_e (chain ! Suc k)) = max 1 (drop_bit 1 (ext_width (lvl_e (chain ! k))))"
    "ext_width (lvl_e (last chain)) = 1"
    using st'(2) assms(1) by (simp_all add: drop_bit_eq_div)
  have step: "ps_mipmapData s' \<noteq> [] \<and>
       ext_width (lvl_e (last (ps_mipmapData s'))) = ps_width s' \<and>
       (\<forall>k. Suc k < length (ps_mipmapData s') \<longrightarrow>
          ext_width (lvl_e (ps_mipmapData s' ! Suc k)) =
          max 1 (drop_bit 1 (ext_width (lvl_e (ps_mipmapData s' ! k)))))"
    if "populateMipmaps_body X A s = Inr s' \<and>
        ps_mipmapData s \<noteq> [] \<and>
        ext_width (lvl_e (last (ps_mipmapData s))) = ps_width s \<and>
        (\<forall>k. Suc k < length (ps_mipmapData s) \<longrightarrow>
           ext_width (lvl_e (ps_mipmapData s ! Suc k)) =
           max 1 (drop_bit 1 (ext_width (lvl_e (ps_mipmapData s ! k)))))"
    for s s'
  proof -
    from that have a: "populateMipmaps_body X A s = Inr s'" "ps_mipmapData s \<noteq> []"
      "ext_width (lvl_e (last (ps_mipmapData s))) = ps_width s"
      "\<forall>k. Suc k < length (ps_mipmapData s) \<longrightarrow>
           ext_width (lvl_e (ps_mipmapData s ! Suc k)) =
           max 1 (ext_width (lvl_e (ps_mipmapData s ! k)) div 2)"
      by (simp_all add: drop_bit_eq_div)
    from populateMipmaps_body_halving[OF a] show ?thesis
      by (simp add: drop_bit_eq_div)
  qed
  from chain step show ?thesis by blast
qed

theorem populateMipmaps_halving_witness:
  "ext_width (lvl_e example_level0) = ext_width (lvl_e example_level0) \<and>
   (\<exists>m' chain. populateMipmaps (reference_externals 0) example_args (ps_mipmapArray example_state)
      (lvl_e example_level0) [example_level0] = Some (Inr (m', chain)) \<and>
      ext_width (lvl_e (chain ! 0)) = 5 \<and>
      ext_width (lvl_e (last chain)) = 1) \<and>
   (\<exists>st'. populateMipmaps_body (reference_externals 0) example_args example_state = Inr st' \<and>
      ps_mipmapData st' \<noteq> [] \<and>
      ext_width (lvl_e (last (ps_mipmapData st'))) = ps_width st')"
proof -
  obtain m' chain where run: "populateMipmaps (reference_externals 0) example_args
      (ps_mipmapArray example_state) (lvl_e example_level0) [example_level0] = Some (Inr (m', chain))"
    using example_populateMipmaps by blast
  note t = populateMipmaps_halving[OF refl run]
  obtain st1 where st1: "populateMipmaps_body (reference_externals 0) example_args example_state = Inr st1"
    using example_first_step[of 0] by blast
  have inv0: "ps_mipmapData example_state \<noteq> []"
    "ext_width (lvl_e (last (ps_mipmapData example_state))) = ps_width example_state"
    "\<forall>k. Suc k < length (ps_mipmapData example_state) \<longrightarrow>
       ext_width (lvl_e (ps_mipmapData example_state ! Suc k)) =
       max 1 (drop_bit 1 (ext_width (lvl_e (ps_mipmapData example_state ! k))))"
    by (simp_all add: example_state_def example_level0_def)
  from t st1 inv0 have "ps_mipmapData st1 \<noteq> [] \<and>
      ext_width (lvl_e (last (ps_mipmapData st1))) = ps_width st1"
    by blast
  moreover have "ext_width (lvl_e (chain ! 0)) = 5" "ext_width (lvl_e (last chain)) = 1"
    using t by (simp_all add: example_level0_def)
  ultimately show ?thesis
    using run st1 by blast
qed

text \<open>
  Claim C4. When the loop runs an iteration (the width is not 1), the runtime hands out
  both level arrays and reports their sizes, and the size it reports for the current
  level differs from the loop's width, or the size it reports for the next level differs
  from the halved width, then the iteration ends in the \<^verbatim>\<open>REQUIRE(false)\<close> of the first check that
  fails, carrying the level, the reported and the expected size, and this failure is the
  result of the whole loop: no later statement of the iteration and no further iteration
  runs.
\<close>

theorem populateMipmaps_size_mismatch_fatal:
  assumes "ps_width st \<noteq> 1"
    and "hipApi X (HipCall hipGetMipmappedArrayLevel 87 (ps_level st)) = hipSuccess"
    and "hipApi X (HipCall hipGetMipmappedArrayLevel 88 (ps_level st)) = hipSuccess"
    and "hipApi X (HipCall hipArrayGetInfo 91 (ps_level st)) = hipSuccess"
    and "length (ps_mipmapArray st (ps_level st)) \<noteq> ps_width st \<or>
         hipApi X (HipCall hipArrayGetInfo 101 (ps_level st)) = hipSuccess \<and>
         length (ps_mipmapArray st (ps_level st + 1)) \<noteq> next_width (ps_width st)"
  shows "populateMipmaps_body X A st =
           Inl (if length (ps_mipmapArray st (ps_level st)) \<noteq> ps_width st
                then LevelSizeMismatch (ps_level st)
                       (length (ps_mipmapArray st (ps_level st))) (ps_width st)
                else NextLevelSizeMismatch (ps_level st + 1)
                       (length (ps_mipmapArray st (ps_level st + 1))) (next_width (ps_width st))) \<and>
         populateMipmaps_loop X A st =
           Some (Inl (if length (ps_mipmapArray st (ps_level st)) \<noteq> ps_width st
                then LevelSizeMismatch (ps_level st)
                       (length (ps_mipmapArray st (ps_level st))) (ps_width st)
                else NextLevelSizeMismatch (ps_level st + 1)
                       (length (ps_mipmapArray st (ps_level st + 1))) (next_width (ps_width st))))"
proof -
  have "populateMipmaps_body X A st =
           Inl (if length (ps_mipmapArray st (ps_level st)) \<noteq> ps_width st
                then LevelSizeMismatch (ps_level st)
                       (length (ps_mipmapArray st (ps_level st))) (ps_width st)
                else NextLevelSizeMismatch (ps_level st + 1)
                       (length (ps_mipmapArray st (ps_level st + 1))) (next_width (ps_width st)))"
    using assms(2-5) by (auto simp: populateMipmaps_body_def HIP_CHECK_def Let_def)
  then show ?thesis
    using populateMipmaps_loop_fail[OF assms(1)] by simp
qed

theorem populateMipmaps_size_mismatch_fatal_witness:
  "ps_width (example_state\<lparr>ps_mipmapArray := example_allocated(1 := [])\<rparr>) \<noteq> 1 \<and>
   hipApi (reference_externals 0) (HipCall hipGetMipmappedArrayLevel 87 0) = hipSuccess \<and>
   hipApi (reference_externals 0) (HipCall hipGetMipmappedArrayLevel 88 0) = hipSuccess \<and>
   hipApi (reference_externals 0) (HipCall hipArrayGetInfo 91 0) = hipSuccess \<and>
   hipApi (reference_externals 0) (HipCall hipArrayGetInfo 101 0) = hipSuccess \<and>
   length ((example_allocated(1 := [])) 1) \<noteq> next_width 5 \<and>
   populateMipmaps_loop (reference_externals 0) example_args
     (example_state\<lparr>ps_mipmapArray := example_allocated(1 := [])\<rparr>) =
   Some (Inl (NextLevelSizeMismatch 1 0 2))"
proof -
  let ?st = "example_state\<lparr>ps_mipmapArray := example_allocated(1 := [])\<rparr>"
  have w: "ps_width ?st \<noteq> 1" "ps_level ?st = 0"
    by (simp_all add: example_state_def)
  have len: "length (ps_mipmapArray ?st (ps_level ?st)) = ps_width ?st"
    "length (ps_mipmapArray ?st (ps_level ?st + 1)) \<noteq> next_width (ps_width ?st)"
    by (simp_all add: example_state_def example_allocated_def)
  have dis: "length (ps_mipmapArray ?st (ps_level ?st)) \<noteq> ps_width ?st \<or>
      hipApi (reference_externals 0) (HipCall hipArrayGetInfo 101 (ps_level ?st)) = hipSuccess \<and>
      length (ps_mipmapArray ?st (ps_level ?st + 1)) \<noteq> next_width (ps_width ?st)"
    using len(2) by simp
  note t = populateMipmaps_size_mismatch_fatal[OF w(1) reference_api reference_api reference_api dis,
      of example_args]
  have "populateMipmaps_loop (reference_externals 0) example_args ?st =
      Some (Inl (NextLevelSizeMismatch 1 0 2))"
    using t by (simp add: example_state_def example_allocated_def)
  then show ?thesis
    by (simp add: example_state_def example_allocated_def)
qed

lemma populate_texel_zero:
  "populate_texel X T hipReadModeElementType texIn px 0 = tex1D X T texIn 0"
  by (simp add: populate_texel_def)

lemma reference_tex1D_example_zero:
  "reference_tex1D T (populate_texIn example_args example_base) 0 = IntPixel [10]"
  by (simp add: reference_tex1D_def populate_texIn_def example_args_def example_base_def
      sample_def sample_texel_units_def resolve_def resolved_pixel_def filter_of_def addressing_of_def)

lemma sample_example_half_texel:
  "sample ((of_nat 0 + 1 / 2) / of_nat 2) example_base 5 Nearest Clamp = IntPixel [20]"
  by (simp add: sample_def sample_texel_units_def resolve_def resolved_pixel_def example_base_def
      floor_divide_numeral)

lemma populateMipmaps_body_texels:
  assumes "populateMipmaps_body X A st = Inr st'"
    and "0 < sizeofT (elemT A)" "sizeofT (elemT A) \<le> 16" "ps_width st' \<le> 2 ^ 31"
  shows "ps_mipmapArray st' (ps_level st + 1) =
           map (\<lambda>n. populate_texel X (elemT A) (readModeT A)
                       (populate_texIn A (ps_mipmapArray st (ps_level st)))
                       (kernel_px (ps_width st')) (int n)) [0..<ps_width st']"
    and "lvl_data (last (ps_mipmapData st')) =
           map (\<lambda>n. populate_texel X (elemT A) (readModeT A)
                       (populate_texIn A (ps_mipmapArray st (ps_level st)))
                       (kernel_px (ps_width st')) (int n)) [0..<ps_width st']"
proof -
  note facts = populateMipmaps_body_Inr[OF assms(1)]
  have w: "next_width (ps_width st) \<le> 2 ^ 31" using assms(4) facts(3) by simp
  obtain surf' data' where l:
    "launch (populateMipmapNextLevelArray X (elemT A) (readModeT A)
               (populate_texIn A (ps_mipmapArray st (ps_level st)))
               (to_uint (next_width (ps_width st))))
            (grid_threads (gridSize_x (next_width (ps_width st))) blockSize_x)
            (ps_mipmapArray st (ps_level st + 1),
             Some (host_buffer (elemT A) (next_width (ps_width st)))) = Some (surf', data')"
    "ps_mipmapArray st' = (ps_mipmapArray st)(ps_level st + 1 := surf')"
    "ps_mipmapData st' = ps_mipmapData st @
       [\<lparr>lvl_data = (case data' of None \<Rightarrow> [] | Some buf \<Rightarrow> buf),
         lvl_e = \<lparr>ext_width = next_width (ps_width st), ext_height = 0, ext_depth = 0\<rparr>\<rparr>]"
    by (rule populateMipmaps_body_launch[OF assms(1)])
  note g = launch_populate_grid[OF assms(2,3) w facts(2) host_buffer_length[OF assms(2,3) w],
      of X "readModeT A" "populate_texIn A (ps_mipmapArray st (ps_level st))"]
  from l(1) g have sd:
    "surf' = map (\<lambda>n. populate_texel X (elemT A) (readModeT A)
                       (populate_texIn A (ps_mipmapArray st (ps_level st)))
                       (kernel_px (next_width (ps_width st))) (int n)) [0..<next_width (ps_width st)]"
    "data' = Some (map (\<lambda>n. populate_texel X (elemT A) (readModeT A)
                       (populate_texIn A (ps_mipmapArray st (ps_level st)))
                       (kernel_px (next_width (ps_width st))) (int n)) [0..<next_width (ps_width st)])"
    by simp_all
  show "ps_mipmapArray st' (ps_level st + 1) =
           map (\<lambda>n. populate_texel X (elemT A) (readModeT A)
                       (populate_texIn A (ps_mipmapArray st (ps_level st)))
                       (kernel_px (ps_width st')) (int n)) [0..<ps_width st']"
    using l(2) sd(1) facts(3) by simp
  show "lvl_data (last (ps_mipmapData st')) =
           map (\<lambda>n. populate_texel X (elemT A) (readModeT A)
                       (populate_texIn A (ps_mipmapArray st (ps_level st)))
                       (kernel_px (ps_width st')) (int n)) [0..<ps_width st']"
    using l(3) sd(2) facts(3) by simp
qed

text \<open>
  Claim C1, as amended. An iteration that completes (for a level of at most \<open>2 ^ 31\<close>
  texels of a type of 1 to 16 bytes) stores, as texel \<open>j\<close> of the new level and as
  \<^verbatim>\<open>data[j]\<close> of the host copy, the hardware's sample of level \<open>k\<close> at the coordinate
  \<^verbatim>\<open>j * px\<close> with \<^verbatim>\<open>px = 1.0 / float(newWidth)\<close>, computed in \<^verbatim>\<open>float\<close>: there is no
  half-texel offset. The sample is taken through a texture object on level \<open>k\<close> with
  normalised coordinates whose filter mode, addressing mode and read mode are the
  template arguments of the instantiation; in \<^verbatim>\<open>hipReadModeNormalizedFloat\<close> the
  \<^verbatim>\<open>float4\<close> sample is converted back by \<^verbatim>\<open>getTypeFromNormalizedFloat\<close>.
\<close>

theorem populate_step_samples:
  assumes "populateMipmaps_body X A st = Inr st'"
    and "0 < sizeofT (elemT A)" "sizeofT (elemT A) \<le> 16" "ps_width st' \<le> 2 ^ 31"
    and "j < ps_width st'"
  shows "let texIn = populate_texIn A (ps_mipmapArray st (ps_level st));
             coord = f32 (f32 (of_nat j) * kernel_px (ps_width st'));
             t = (case readModeT A of
                    hipReadModeElementType \<Rightarrow> tex1D X (elemT A) texIn coord
                  | hipReadModeNormalizedFloat \<Rightarrow>
                      getTypeFromNormalizedFloat X (elemT A) (tex1D X float4 texIn coord))
         in ps_width st' = next_width (ps_width st) \<and>
            length (ps_mipmapArray st' (ps_level st + 1)) = ps_width st' \<and>
            ps_mipmapArray st' (ps_level st + 1) ! j = t \<and>
            lvl_data (last (ps_mipmapData st')) ! j = t \<and>
            texRes texIn = hipResourceTypeArray (ps_mipmapArray st (ps_level st)) \<and>
            normalizedCoords (texDescr texIn) = 1 \<and>
            filterMode (texDescr texIn) = filterModeT A \<and>
            addressMode (texDescr texIn) = [addressModeT A, addressModeT A, addressModeT A] \<and>
            readMode (texDescr texIn) = readModeT A"
proof -
  note tx = populateMipmaps_body_texels[OF assms(1-4)]
  have "ps_width st' = next_width (ps_width st)"
    by (rule populateMipmaps_body_Inr(3)[OF assms(1)])
  moreover have "length (ps_mipmapArray st' (ps_level st + 1)) = ps_width st'"
    unfolding tx(1) by simp
  moreover have "ps_mipmapArray st' (ps_level st + 1) ! j =
      populate_texel X (elemT A) (readModeT A) (populate_texIn A (ps_mipmapArray st (ps_level st)))
        (kernel_px (ps_width st')) (int j)"
    unfolding tx(1) using assms(5) by simp
  moreover have "lvl_data (last (ps_mipmapData st')) ! j =
      populate_texel X (elemT A) (readModeT A) (populate_texIn A (ps_mipmapArray st (ps_level st)))
        (kernel_px (ps_width st')) (int j)"
    unfolding tx(2) using assms(5) by simp
  ultimately show ?thesis
    by (cases "readModeT A") (simp_all add: populate_texel_def populate_texIn_def Let_def)
qed

theorem populate_step_samples_witness:
  "0 < sizeofT (elemT example_args) \<and> sizeofT (elemT example_args) \<le> 16 \<and>
   (\<exists>st'. populateMipmaps_body (reference_externals 0) example_args example_state = Inr st' \<and>
      ps_width st' \<le> 2 ^ 31 \<and> 0 < ps_width st' \<and>
      ps_width st' = next_width (ps_width example_state) \<and>
      ps_mipmapArray st' (ps_level example_state + 1) ! 0 =
        tex1D (reference_externals 0) (elemT example_args)
          (populate_texIn example_args (ps_mipmapArray example_state (ps_level example_state)))
          (f32 (f32 (of_nat 0) * kernel_px (ps_width st'))) \<and>
      ps_mipmapArray st' (ps_level example_state + 1) ! 0 = IntPixel [10])"
proof -
  obtain st1 where st1:
    "populateMipmaps_body (reference_externals 0) example_args example_state = Inr st1"
    "ps_width st1 = 2"
    using example_first_step[of 0] by blast
  have sz: "0 < sizeofT (elemT example_args)" "sizeofT (elemT example_args) \<le> 16"
    by (simp_all add: example_args_def)
  have w: "ps_width st1 \<le> 2 ^ 31" "0 < ps_width st1"
    using st1(2) by simp_all
  note t = populate_step_samples[OF st1(1) sz w]
  have rm: "readModeT example_args = hipReadModeElementType"
    by (simp add: example_args_def)
  from t have a: "ps_width st1 = next_width (ps_width example_state)"
    "ps_mipmapArray st1 (ps_level example_state + 1) ! 0 =
        tex1D (reference_externals 0) (elemT example_args)
          (populate_texIn example_args (ps_mipmapArray example_state (ps_level example_state)))
          (f32 (f32 (of_nat 0) * kernel_px (ps_width st1)))"
    by (simp_all add: Let_def rm)
  have "tex1D (reference_externals 0) (elemT example_args)
          (populate_texIn example_args (ps_mipmapArray example_state (ps_level example_state)))
          (f32 (f32 (of_nat 0) * kernel_px (ps_width st1))) = IntPixel [10]"
    by (simp add: reference_externals_def example_state_def reference_tex1D_example_zero)
  with a sz w st1(1) show ?thesis by auto
qed

text \<open>
  The claim as stated fails. With a device that samples as the reference model does,
  the step from the example base level (width 5) to the level of width 2 stores texel
  0 of the base level as texel 0, where sampling with Nearest and Clamp at
  \<open>(0 + 0.5) / 2\<close> reads texel 1. And in an instantiation with linear filtering and
  border addressing the same step blends the border value with texel 0.
\<close>

theorem populate_step_samples_counterexample:
  "\<not> (\<forall>st'. populateMipmaps_body (reference_externals 0) example_args example_state = Inr st' \<longrightarrow>
        (\<forall>j < ps_width st'.
           ps_mipmapArray st' (ps_level example_state + 1) ! j =
           sample ((of_nat j + 1 / 2) / of_nat (ps_width st'))
             (ps_mipmapArray example_state (ps_level example_state))
             (int (ps_width example_state)) Nearest Clamp)) \<and>
   (\<exists>st'. populateMipmaps_body (reference_externals 0) example_args example_state = Inr st' \<and>
      ps_width st' = 2 \<and>
      ps_mipmapArray st' (ps_level example_state + 1) ! 0 = IntPixel [10] \<and>
      sample ((of_nat 0 + 1 / 2) / of_nat 2) (ps_mipmapArray example_state (ps_level example_state))
        (int (ps_width example_state)) Nearest Clamp = IntPixel [20]) \<and>
   (\<exists>st'. populateMipmaps_body (reference_externals 0)
             (example_args\<lparr>filterModeT := hipFilterModeLinear, addressModeT := hipAddressModeBorder\<rparr>)
             example_state = Inr st' \<and>
      ps_mipmapArray st' (ps_level example_state + 1) ! 0 = IntPixel [5])"
proof -
  obtain st1 where st1:
    "populateMipmaps_body (reference_externals 0) example_args example_state = Inr st1"
    "ps_width st1 = 2"
    using example_first_step[of 0] by blast
  have sz: "0 < sizeofT (elemT example_args)" "sizeofT (elemT example_args) \<le> 16"
    by (simp_all add: example_args_def)
  have w: "ps_width st1 \<le> 2 ^ 31"
    using st1(2) by simp
  have "ps_mipmapArray st1 (ps_level example_state + 1) ! 0 =
      populate_texel (reference_externals 0) (elemT example_args) (readModeT example_args)
        (populate_texIn example_args (ps_mipmapArray example_state (ps_level example_state)))
        (kernel_px (ps_width st1)) (int 0)"
    using st1(2) populateMipmaps_body_texels(1)[OF st1(1) sz w] by (simp del: upt_Suc)
  then have got: "ps_mipmapArray st1 (ps_level example_state + 1) ! 0 = IntPixel [10]"
    by (simp add: example_args_def populate_texel_zero reference_externals_def
        example_state_def reference_tex1D_example_zero[unfolded example_args_def])
  have want: "sample ((of_nat 0 + 1 / 2) / of_nat 2)
        (ps_mipmapArray example_state (ps_level example_state))
        (int (ps_width example_state)) Nearest Clamp = IntPixel [20]"
    using sample_example_half_texel by (simp add: example_state_def)
  have first: "\<not> (\<forall>st'. populateMipmaps_body (reference_externals 0) example_args example_state = Inr st' \<longrightarrow>
        (\<forall>j < ps_width st'.
           ps_mipmapArray st' (ps_level example_state + 1) ! j =
           sample ((of_nat j + 1 / 2) / of_nat (ps_width st'))
             (ps_mipmapArray example_state (ps_level example_state))
             (int (ps_width example_state)) Nearest Clamp))"
  proof
    assume "\<forall>st'. populateMipmaps_body (reference_externals 0) example_args example_state = Inr st' \<longrightarrow>
        (\<forall>j < ps_width st'.
           ps_mipmapArray st' (ps_level example_state + 1) ! j =
           sample ((of_nat j + 1 / 2) / of_nat (ps_width st'))
             (ps_mipmapArray example_state (ps_level example_state))
             (int (ps_width example_state)) Nearest Clamp)"
    then have "ps_mipmapArray st1 (ps_level example_state + 1) ! 0 =
           sample ((of_nat 0 + 1 / 2) / of_nat (ps_width st1))
             (ps_mipmapArray example_state (ps_level example_state))
             (int (ps_width example_state)) Nearest Clamp"
      using st1 by simp
    then show False
      using got want st1(2) by simp
  qed
  let ?B = "example_args\<lparr>filterModeT := hipFilterModeLinear, addressModeT := hipAddressModeBorder\<rparr>"
  have "\<exists>st'. populateMipmaps_body (reference_externals 0) ?B example_state = Inr st' \<and>
           ps_width st' = next_width (ps_width example_state) \<and>
           ps_level st' = ps_level example_state + 1 \<and>
           length (ps_mipmapArray st' (ps_level example_state + 1)) = next_width (ps_width example_state) \<and>
           (\<forall>k. k \<noteq> ps_level example_state + 1 \<longrightarrow> ps_mipmapArray st' k = ps_mipmapArray example_state k) \<and>
           length (ps_mipmapData st') = length (ps_mipmapData example_state) + 1"
    by (rule populateMipmaps_body_success_ex)
       (simp_all add: example_state_def example_args_def example_allocated_def example_base_def)
  then obtain st2 where st2:
    "populateMipmaps_body (reference_externals 0) ?B example_state = Inr st2"
    "ps_width st2 = next_width (ps_width example_state)"
    by blast
  have w2: "ps_width st2 = 2" using st2(2) by (simp add: example_state_def)
  have szB: "0 < sizeofT (elemT ?B)" "sizeofT (elemT ?B) \<le> 16"
    by (simp_all add: example_args_def)
  have wB: "ps_width st2 \<le> 2 ^ 31" using w2 by simp
  have "ps_mipmapArray st2 (ps_level example_state + 1) ! 0 =
      populate_texel (reference_externals 0) (elemT ?B) (readModeT ?B)
        (populate_texIn ?B (ps_mipmapArray example_state (ps_level example_state)))
        (kernel_px (ps_width st2)) (int 0)"
    using w2 populateMipmaps_body_texels(1)[OF st2(1) szB wB] by (simp del: upt_Suc)
  moreover have "\<lfloor>- (1 / 2) :: rat\<rfloor> = - 1"
    by (rule floor_unique) simp_all
  ultimately have "ps_mipmapArray st2 (ps_level example_state + 1) ! 0 = IntPixel [5]"
    by (simp add: example_args_def populate_texel_zero reference_externals_def
        example_state_def reference_tex1D_def populate_texIn_def example_base_def
        sample_def sample_texel_units_def resolve_def resolved_pixel_def filter_of_def
        addressing_of_def blend_def channels_def border_value_def zero_like_def Let_def)
  with first got want st1 st2(1) show ?thesis by blast
qed

section \<open>The guard of the kernels\<close>

lemma thread_x_guard:
  assumes "width \<le> 2 ^ 31" "int_to_uint (thread_x tid) < width"
  shows "0 \<le> thread_x tid" "thread_x tid < int width" "int_to_uint (thread_x tid) = nat (thread_x tid)"
proof -
  obtain b d t where tid: "tid = (b, d, t)" by (cases tid)
  define n where "n = to_uint (b * d + t)"
  have n32: "n < 2 ^ 32" by (simp add: n_def to_uint_def)
  have x: "thread_x tid = uint_to_int n" by (simp add: tid thread_x_def n_def)
  have "int_to_uint (thread_x tid) = n"
    using n32 by (simp add: x int_to_uint_uint_to_int)
  then have nw: "n < width" using assms(2) by simp
  then have "n < 2 ^ 31" using assms(1) by simp
  then have xn: "thread_x tid = int n"
    using n32 by (simp add: x uint_to_int_def)
  show "0 \<le> thread_x tid" by (simp add: xn)
  show "thread_x tid < int width" using nw by (simp add: xn)
  show "int_to_uint (thread_x tid) = nat (thread_x tid)"
    using n32 by (simp add: xn int_to_uint_def nat_mod_distrib)
qed

lemma surf_offset_in_range:
  assumes "0 \<le> x" "x < 2 ^ 31" "0 < sizeofT T" "sizeofT T \<le> 16"
  shows "to_size_t (int_to_size_t x * sizeofT T) = nat x * sizeofT T"
proof -
  have n: "nat x < 2 ^ 31" using assms(1,2) by simp
  have "nat x * sizeofT T \<le> 2 ^ 31 * 16"
    using n assms(4) by (intro mult_le_mono) auto
  moreover have "int_to_size_t x = nat x"
    using assms(1,2) by (simp add: int_to_size_t_def)
  ultimately show ?thesis by (simp add: to_size_t_def)
qed

text \<open>
  Claim C10. Every write of the two kernels is guarded. A thread whose index is not
  below \<^verbatim>\<open>width\<close> leaves the surface and the output array as they are. A thread that
  passes the guard has \<open>0 \<le> x < width\<close>; in \<^verbatim>\<open>populateMipmapNextLevelArray\<close> it writes
  texel \<open>x\<close> of the surface and \<^verbatim>\<open>data[x]\<close> and nothing else, in \<^verbatim>\<open>getMipmap\<close> it
  writes \<^verbatim>\<open>data[x]\<close> and nothing else; with arrays of at least \<^verbatim>\<open>width\<close> texels no
  access is out of range. The kernels are launched at lines 139 and 167 only, with the
  width of a level of the chain, which is at most the base width of the test case
  (263 for the widest one); the statement covers every width up to \<open>2 ^ 31\<close>, the range
  in which the \<^verbatim>\<open>int\<close> index \<open>x\<close> holds every thread index below \<^verbatim>\<open>width\<close>, and every
  texel type of 1 to 16 bytes.
\<close>

theorem kernel_writes_guarded:
  assumes "width \<le> 2 ^ 31" "0 < sizeofT T" "sizeofT T \<le> 16"
  shows
   "(\<not> int_to_uint (thread_x tid) < width \<longrightarrow>
        populateMipmapNextLevelArray X T rm texIn width tid mem = Some mem \<and>
        getMipmap X T texMipmap width offsetX lod tid data = Some data) \<and>
    (int_to_uint (thread_x tid) < width \<longrightarrow>
        0 \<le> thread_x tid \<and> thread_x tid < int width \<and>
        (width \<le> length (fst mem) \<and> (\<forall>buf. snd mem = Some buf \<longrightarrow> width \<le> length buf) \<longrightarrow>
           populateMipmapNextLevelArray X T rm texIn width tid mem =
             Some ((fst mem)[nat (thread_x tid) :=
                      populate_texel X T rm texIn (kernel_px width) (thread_x tid)],
                   map_option (\<lambda>buf. buf[nat (thread_x tid) :=
                      populate_texel X T rm texIn (kernel_px width) (thread_x tid)]) (snd mem))) \<and>
        ((\<forall>buf. data = Some buf \<longrightarrow> width \<le> length buf) \<longrightarrow>
           getMipmap X T texMipmap width offsetX lod tid data =
             Some (map_option (\<lambda>buf. buf[nat (thread_x tid) :=
                      getMipmap_texel X T texMipmap (kernel_px width) offsetX lod (thread_x tid)]) data)))"
proof (cases "int_to_uint (thread_x tid) < width")
  case False
  then show ?thesis
    by (simp add: populateMipmapNextLevelArray_def getMipmap_def Let_def)
next
  case True
  note g = thread_x_guard[OF assms(1) True]
  have x31: "thread_x tid < 2 ^ 31" using g(2) assms(1) by simp
  note off = surf_offset_in_range[OF g(1) x31 assms(2,3)]
  have nx: "nat (thread_x tid) < width" using g(1,2) by simp
  have pop: "populateMipmapNextLevelArray X T rm texIn width tid mem =
             Some ((fst mem)[nat (thread_x tid) :=
                      populate_texel X T rm texIn (kernel_px width) (thread_x tid)],
                   map_option (\<lambda>buf. buf[nat (thread_x tid) :=
                      populate_texel X T rm texIn (kernel_px width) (thread_x tid)]) (snd mem))"
    if "width \<le> length (fst mem)" "\<forall>buf. snd mem = Some buf \<longrightarrow> width \<le> length buf"
    using that True nx g(1) assms(2)
    by (cases "snd mem")
       (simp_all add: populateMipmapNextLevelArray_def Let_def off surf1Dwrite_def
          record_at_def store_at_def)
  have get: "getMipmap X T texMipmap width offsetX lod tid data =
             Some (map_option (\<lambda>buf. buf[nat (thread_x tid) :=
                      getMipmap_texel X T texMipmap (kernel_px width) offsetX lod (thread_x tid)]) data)"
    if "\<forall>buf. data = Some buf \<longrightarrow> width \<le> length buf"
    using that True nx g(1)
    by (cases data) (simp_all add: getMipmap_def Let_def record_at_def store_at_def)
  show ?thesis
    using True g(1,2) pop get by simp
qed

theorem kernel_writes_guarded_witness:
  "(2::nat) \<le> 2 ^ 31 \<and> 0 < sizeofT T_int \<and> sizeofT T_int \<le> 16 \<and>
   int_to_uint (thread_x (0, 16, 1)) < 2 \<and>
   0 \<le> thread_x (0, 16, 1) \<and> thread_x (0, 16, 1) < int 2 \<and>
   2 \<le> length (fst ([IntPixel [0], IntPixel [0]], Some [IntPixel [0], IntPixel [0]])) \<and>
   populateMipmapNextLevelArray (reference_externals 0) T_int hipReadModeElementType
     (populate_texIn example_args example_base) 2 (0, 16, 1)
     ([IntPixel [0], IntPixel [0]], Some [IntPixel [0], IntPixel [0]]) =
   Some ([IntPixel [0],
          populate_texel (reference_externals 0) T_int hipReadModeElementType
            (populate_texIn example_args example_base) (kernel_px 2) 1],
         Some [IntPixel [0],
          populate_texel (reference_externals 0) T_int hipReadModeElementType
            (populate_texIn example_args example_base) (kernel_px 2) 1]) \<and>
   \<not> int_to_uint (thread_x (0, 16, 5)) < 2 \<and>
   getMipmap (reference_externals 0) T_int (mipmap_texture example_args example_allocated 3)
     2 0 0 (0, 16, 5) (Some [IntPixel [0], IntPixel [0]]) = Some (Some [IntPixel [0], IntPixel [0]])"
proof -
  have h: "(2::nat) \<le> 2 ^ 31" "0 < sizeofT T_int" "sizeofT T_int \<le> 16"
    by simp_all
  have x1: "thread_x (0, 16, 1) = 1" "int_to_uint (thread_x (0, 16, 1)) < 2"
    by (simp_all add: thread_x_def to_uint_def uint_to_int_def int_to_uint_def)
  have x5: "\<not> int_to_uint (thread_x (0, 16, 5)) < 2"
    by (simp add: thread_x_def to_uint_def uint_to_int_def int_to_uint_def)
  note t1 = kernel_writes_guarded[OF h, of "(0, 16, 1)" "reference_externals 0"
      hipReadModeElementType "populate_texIn example_args example_base"
      "([IntPixel [0], IntPixel [0]], Some [IntPixel [0], IntPixel [0]])"]
  note t5 = kernel_writes_guarded[OF h, of "(0, 16, 5)" "reference_externals 0" _ _ _
      "mipmap_texture example_args example_allocated 3" 0 0 "Some [IntPixel [0], IntPixel [0]]"]
  have a: "populateMipmapNextLevelArray (reference_externals 0) T_int hipReadModeElementType
     (populate_texIn example_args example_base) 2 (0, 16, 1)
     ([IntPixel [0], IntPixel [0]], Some [IntPixel [0], IntPixel [0]]) =
   Some ([IntPixel [0],
          populate_texel (reference_externals 0) T_int hipReadModeElementType
            (populate_texIn example_args example_base) (kernel_px 2) 1],
         Some [IntPixel [0],
          populate_texel (reference_externals 0) T_int hipReadModeElementType
            (populate_texIn example_args example_base) (kernel_px 2) 1])"
    using t1 x1 by simp
  have b: "getMipmap (reference_externals 0) T_int (mipmap_texture example_args example_allocated 3)
     2 0 0 (0, 16, 5) (Some [IntPixel [0], IntPixel [0]]) = Some (Some [IntPixel [0], IntPixel [0]])"
    using t5 x5 by simp
  show ?thesis
    using h x1 x5 a b by simp
qed

text \<open>
  The range of the statement is the range of the \<^verbatim>\<open>int\<close> index. For a width above
  \<open>2 ^ 31\<close>, which no launch of the test has, the comparison \<^verbatim>\<open>x < width\<close> is made in
  \<^verbatim>\<open>unsigned int\<close>: the thread with \<^verbatim>\<open>blockIdx.x = 2^27\<close>, \<^verbatim>\<open>blockDim.x = 16\<close>,
  \<^verbatim>\<open>threadIdx.x = 0\<close> has \<open>x = - 2 ^ 31\<close>, passes the comparison with
  \<^verbatim>\<open>width = 2^31 + 1\<close>, and indexes the arrays outside their range.
\<close>

lemma signed_index_beyond_int_range:
  "int_to_uint (thread_x (2 ^ 27, 16, 0)) < 2 ^ 31 + 1 \<and>
   thread_x (2 ^ 27, 16, 0) = - (2 ^ 31) \<and>
   \<not> (0 \<le> thread_x (2 ^ 27, 16, 0) \<and> thread_x (2 ^ 27, 16, 0) < int (2 ^ 31 + 1)) \<and>
   populateMipmapNextLevelArray (reference_externals 0) T_int hipReadModeElementType
     (populate_texIn example_args example_base) (2 ^ 31 + 1) (2 ^ 27, 16, 0)
     (replicate (2 ^ 31 + 1) (IntPixel [0]), Some (replicate (2 ^ 31 + 1) (IntPixel [0]))) = None \<and>
   getMipmap (reference_externals 0) T_int (mipmap_texture example_args example_allocated 3)
     (2 ^ 31 + 1) 0 0 (2 ^ 27, 16, 0) (Some (replicate (2 ^ 31 + 1) (IntPixel [0]))) = None"
proof -
  have x: "thread_x (2 ^ 27, 16, 0) = - (2 ^ 31)"
    by (simp add: thread_x_def to_uint_def uint_to_int_def)
  have x': "thread_x (134217728, 16, 0) = - 2147483648"
    using x by simp
  have g: "int_to_uint (thread_x (2 ^ 27, 16, 0)) < 2 ^ 31 + 1"
    unfolding x by (simp add: int_to_uint_def)
  have off: "to_size_t (int_to_size_t (- (2 ^ 31)) * sizeofT T_int) div sizeofT T_int = 2 ^ 62 - 2 ^ 31"
    by (simp add: to_size_t_def int_to_size_t_def)
  have p: "populateMipmapNextLevelArray (reference_externals 0) T_int hipReadModeElementType
     (populate_texIn example_args example_base) (2 ^ 31 + 1) (2 ^ 27, 16, 0)
     (replicate (2 ^ 31 + 1) (IntPixel [0]), Some (replicate (2 ^ 31 + 1) (IntPixel [0]))) = None"
    using g off
    by (simp add: populateMipmapNextLevelArray_def Let_def x' surf1Dwrite_def record_at_def store_at_def)
  have m: "getMipmap (reference_externals 0) T_int (mipmap_texture example_args example_allocated 3)
     (2 ^ 31 + 1) 0 0 (2 ^ 27, 16, 0) (Some (replicate (2 ^ 31 + 1) (IntPixel [0]))) = None"
    using g
    by (simp add: getMipmap_def Let_def x' record_at_def store_at_def)
  show ?thesis
    using x x' g p m by simp
qed

section \<open>The launch of getMipmap\<close>

lemma getMipmap_thread:
  assumes "n < 2 ^ 32" "w \<le> 2 ^ 31"
  shows "getMipmap X T tex w offsetX lod (n div 16, 16, n mod 16) (Some buf) =
     (if n < w then
        (if n < length buf
         then Some (Some (buf[n := getMipmap_texel X T tex (kernel_px w) offsetX lod (int n)]))
         else None)
      else Some (Some buf))"
proof (cases "n < w")
  case False
  have "int_to_uint (thread_x (n div 16, 16, n mod 16)) = n"
    using assms(1) by (simp add: thread_x_linear int_to_uint_uint_to_int to_uint_def)
  then show ?thesis
    using False by (simp add: getMipmap_def Let_def)
next
  case True
  then have n31: "n < 2 ^ 31" using assms by simp
  have x: "thread_x (n div 16, 16, n mod 16) = int n"
    using uint_to_int_small[OF n31] by (simp add: thread_x_linear)
  have g: "int_to_uint (int n) = n"
    using assms(1) by (simp add: int_to_uint_def nat_mod_distrib)
  show ?thesis
    using True by (simp add: getMipmap_def x g record_at_def store_at_def Let_def)
qed

lemma launch_getMipmap_upt:
  assumes "w \<le> 2 ^ 31" "N < 2 ^ 32" "w \<le> length buf"
  shows "launch (\<lambda>n. getMipmap X T tex w offsetX lod (n div 16, 16, n mod 16)) [0..<N] (Some buf) =
         Some (Some (map (\<lambda>n. getMipmap_texel X T tex (kernel_px w) offsetX lod (int n)) [0..<min N w]
                     @ drop (min N w) buf))"
  using assms(2)
proof (induction N)
  case 0
  then show ?case by simp
next
  case (Suc N)
  then have N: "N < 2 ^ 32" by simp
  let ?f = "\<lambda>n. getMipmap_texel X T tex (kernel_px w) offsetX lod (int n)"
  let ?k = "\<lambda>n. getMipmap X T tex w offsetX lod (n div 16, 16, n mod 16)"
  have split: "launch ?k [0..<Suc N] (Some buf) =
      (case launch ?k [0..<N] (Some buf) of None \<Rightarrow> None | Some mem' \<Rightarrow> launch ?k [N] mem')"
    by (simp add: launch_append)
  note IH = Suc.IH[OF N]
  show ?case
  proof (cases "N < w")
    case True
    then have m: "min N w = N" "min (Suc N) w = Suc N" by simp_all
    have len: "N < length (map ?f [0..<N] @ drop N buf)"
      using True assms(3) by simp
    have len': "N < length buf" using True assms(3) by simp
    have "launch ?k [0..<Suc N] (Some buf) =
        Some (Some ((map ?f [0..<N] @ drop N buf)[N := ?f N]))"
      unfolding split IH m
      using True len by (simp add: getMipmap_thread[OF N assms(1)])
    also have "\<dots> = Some (Some (map ?f [0..<Suc N] @ drop (Suc N) buf))"
      by (simp add: prefix_written_step[OF len'])
    finally show ?thesis by (simp only: m)
  next
    case False
    then have m: "min N w = w" "min (Suc N) w = w" by simp_all
    show ?thesis
      unfolding split IH m
      using False by (simp add: getMipmap_thread[OF N assms(1)])
  qed
qed

lemma launch_getMipmap_grid:
  assumes "0 < sizeofT T" "sizeofT T \<le> 16" "w \<le> 2 ^ 31"
  shows "launch (getMipmap X T tex (to_uint w) offsetX lod)
           (grid_threads (gridSize_x w) blockSize_x) (Some (host_buffer T w)) =
         Some (Some (map (\<lambda>n. getMipmap_texel X T tex (kernel_px w) offsetX lod (int n)) [0..<w]))"
proof -
  have u: "to_uint w = w" using assms(3) by (simp add: to_uint_def)
  have N: "(w + 15) div 16 * 16 < 2 ^ 32" using assms(3) by simp
  have ge: "w \<le> (w + 15) div 16 * 16" by simp
  have len: "w \<le> length (host_buffer T w)"
    using host_buffer_length[OF assms] by simp
  show ?thesis
    using launch_getMipmap_upt[OF assms(3) N len, of X T tex offsetX lod] ge
      host_buffer_length[OF assms]
    by (simp add: u gridSize_x_eq[OF assms(3)] blockSize_x_def grid_threads_upt launch_map min_absorb2)
qed

section \<open>The comparison loop\<close>

lemma verifyMipmapLevel_loop_done:
  "width \<le> i \<Longrightarrow> verifyMipmapLevel_loop X T fm am hOutput data width level offsetX i = Some (Inr ())"
  by (subst verifyMipmapLevel_loop.simps) simp

lemma verifyMipmapLevel_loop_match:
  assumes "i < width" "i < length hOutput"
    and "hipTextureSamplingVerify X T fm False (hOutput ! i)
           (getExpectedValue X T am fm False width (f32 (f32 (of_nat i) + offsetX)) data)"
  shows "verifyMipmapLevel_loop X T fm am hOutput data width level offsetX i =
         verifyMipmapLevel_loop X T fm am hOutput data width level offsetX (to_uint (i + 1))"
  using assms by (subst verifyMipmapLevel_loop.simps) (simp add: Let_def)

lemma verifyMipmapLevel_loop_mismatch:
  assumes "i < width" "i < length hOutput" "i < length data"
    and "\<not> hipTextureSamplingVerify X T fm False (hOutput ! i)
           (getExpectedValue X T am fm False width (f32 (f32 (of_nat i) + offsetX)) data)"
  shows "verifyMipmapLevel_loop X T fm am hOutput data width level offsetX i =
         Some (Inl (SamplingMismatch
            \<lparr>mm_level = level, mm_index = i,
             mm_coordinate = f32 (f32 (of_nat i) + offsetX),
             mm_gpuOutput = hOutput ! i,
             mm_cpuExpected = getExpectedValue X T am fm False width (f32 (f32 (of_nat i) + offsetX)) data,
             mm_data = data ! i\<rparr>))"
  using assms by (subst verifyMipmapLevel_loop.simps) (simp add: Let_def)

lemma verifyMipmapLevel_loop_first_mismatch:
  assumes "width < 2 ^ 32" "width \<le> length hOutput" "width \<le> length data"
    and "k < width"
    and "\<not> hipTextureSamplingVerify X T fm False (hOutput ! k)
           (getExpectedValue X T am fm False width (f32 (f32 (of_nat k) + offsetX)) data)"
    and "\<forall>j. i \<le> j \<and> j < k \<longrightarrow>
           hipTextureSamplingVerify X T fm False (hOutput ! j)
             (getExpectedValue X T am fm False width (f32 (f32 (of_nat j) + offsetX)) data)"
    and "i \<le> k"
  shows "verifyMipmapLevel_loop X T fm am hOutput data width level offsetX i =
         Some (Inl (SamplingMismatch
            \<lparr>mm_level = level, mm_index = k,
             mm_coordinate = f32 (f32 (of_nat k) + offsetX),
             mm_gpuOutput = hOutput ! k,
             mm_cpuExpected = getExpectedValue X T am fm False width (f32 (f32 (of_nat k) + offsetX)) data,
             mm_data = data ! k\<rparr>))"
  using assms(6,7)
proof (induction "k - i" arbitrary: i)
  case 0
  then have "i = k" by simp
  then show ?case
    using verifyMipmapLevel_loop_mismatch[of k width hOutput data X T fm am offsetX level] assms(2-5)
    by simp
next
  case (Suc d)
  then have ik: "i < k" by simp
  then have iw: "i < width" "i < length hOutput" using assms(2,4) by simp_all
  have m: "hipTextureSamplingVerify X T fm False (hOutput ! i)
             (getExpectedValue X T am fm False width (f32 (f32 (of_nat i) + offsetX)) data)"
    using Suc.prems(1) ik by simp
  have u: "to_uint (i + 1) = i + 1"
    using iw(1) assms(1) by (simp add: to_uint_def)
  have "verifyMipmapLevel_loop X T fm am hOutput data width level offsetX i =
        verifyMipmapLevel_loop X T fm am hOutput data width level offsetX (i + 1)"
    using verifyMipmapLevel_loop_match[OF iw m] u by simp
  moreover have "verifyMipmapLevel_loop X T fm am hOutput data width level offsetX (i + 1) =
         Some (Inl (SamplingMismatch
            \<lparr>mm_level = level, mm_index = k,
             mm_coordinate = f32 (f32 (of_nat k) + offsetX),
             mm_gpuOutput = hOutput ! k,
             mm_cpuExpected = getExpectedValue X T am fm False width (f32 (f32 (of_nat k) + offsetX)) data,
             mm_data = data ! k\<rparr>))"
    using Suc.hyps(2) Suc.prems ik by (intro Suc.hyps(1)) auto
  ultimately show ?case by simp
qed

lemma verifyMipmapLevel_loop_all_match:
  assumes "width < 2 ^ 32" "width \<le> length hOutput"
    and "\<forall>j. i \<le> j \<and> j < width \<longrightarrow>
           hipTextureSamplingVerify X T fm False (hOutput ! j)
             (getExpectedValue X T am fm False width (f32 (f32 (of_nat j) + offsetX)) data)"
  shows "verifyMipmapLevel_loop X T fm am hOutput data width level offsetX i = Some (Inr ())"
  using assms(3)
proof (induction "width - i" arbitrary: i)
  case 0
  then show ?case by (simp add: verifyMipmapLevel_loop_done)
next
  case (Suc d)
  then have iw: "i < width" "i < length hOutput" using assms(2) by simp_all
  have m: "hipTextureSamplingVerify X T fm False (hOutput ! i)
             (getExpectedValue X T am fm False width (f32 (f32 (of_nat i) + offsetX)) data)"
    using Suc.prems iw(1) by simp
  have u: "to_uint (i + 1) = i + 1"
    using iw(1) assms(1) by (simp add: to_uint_def)
  have "verifyMipmapLevel_loop X T fm am hOutput data width level offsetX i =
        verifyMipmapLevel_loop X T fm am hOutput data width level offsetX (i + 1)"
    using verifyMipmapLevel_loop_match[OF iw m] u by simp
  moreover have "verifyMipmapLevel_loop X T fm am hOutput data width level offsetX (i + 1) = Some (Inr ())"
    using Suc.hyps(2) Suc.prems by (intro Suc.hyps(1)) auto
  ultimately show ?case by simp
qed

section \<open>verifyMipmapLevel\<close>

lemma verifyMipmapLevel_unfold:
  assumes "0 < sizeofT T" "sizeofT T \<le> 16" "width \<le> 2 ^ 31"
    and "hipApi X (HipCall hipHostMalloc 161 (nat \<lfloor>level\<rfloor>)) = hipSuccess"
    and "hipApi X (HipCall hipDeviceSynchronize 168 (nat \<lfloor>level\<rfloor>)) = hipSuccess"
    and "hipApi X (HipCall hipGetLastError 169 (nat \<lfloor>level\<rfloor>)) = hipSuccess"
  shows "verifyMipmapLevel X T fm am tex data width level offsetX =
     (case verifyMipmapLevel_loop X T fm am
             (map (\<lambda>n. getMipmap_texel X T tex (kernel_px width) offsetX level (int n)) [0..<width])
             data width level offsetX 0 of
        None \<Rightarrow> None
      | Some (Inl f) \<Rightarrow> Some (Inl f)
      | Some (Inr u) \<Rightarrow> HIP_CHECK_o X (HipCall hipHostFree 190 (nat \<lfloor>level\<rfloor>)) (Some (Inr ())))"
  using assms(4-6)
  by (simp add: verifyMipmapLevel_def HIP_CHECK_o_def Let_def launch_getMipmap_grid[OF assms(1-3)])

lemma getMipmap_texel_eq:
  "getMipmap_texel X T tex px offsetX lod (int n) =
   tex1DLod X T tex (f32 (f32 (f32 (of_nat n) + offsetX) * px)) lod"
  by (simp add: getMipmap_texel_def)

lemma verifyMipmapLevel_first_mismatch:
  assumes "0 < sizeofT T" "sizeofT T \<le> 16" "width \<le> 2 ^ 31" "width \<le> length data"
    and "hipApi X (HipCall hipHostMalloc 161 (nat \<lfloor>level\<rfloor>)) = hipSuccess"
    and "hipApi X (HipCall hipDeviceSynchronize 168 (nat \<lfloor>level\<rfloor>)) = hipSuccess"
    and "hipApi X (HipCall hipGetLastError 169 (nat \<lfloor>level\<rfloor>)) = hipSuccess"
    and "k < width"
    and "\<not> hipTextureSamplingVerify X T fm False
             (tex1DLod X T tex (f32 (f32 (f32 (of_nat k) + offsetX) * kernel_px width)) level)
             (getExpectedValue X T am fm False width (f32 (f32 (of_nat k) + offsetX)) data)"
    and "\<forall>j<k. hipTextureSamplingVerify X T fm False
             (tex1DLod X T tex (f32 (f32 (f32 (of_nat j) + offsetX) * kernel_px width)) level)
             (getExpectedValue X T am fm False width (f32 (f32 (of_nat j) + offsetX)) data)"
  shows "verifyMipmapLevel X T fm am tex data width level offsetX =
         Some (Inl (SamplingMismatch
            \<lparr>mm_level = level, mm_index = k,
             mm_coordinate = f32 (f32 (of_nat k) + offsetX),
             mm_gpuOutput = tex1DLod X T tex (f32 (f32 (f32 (of_nat k) + offsetX) * kernel_px width)) level,
             mm_cpuExpected = getExpectedValue X T am fm False width (f32 (f32 (of_nat k) + offsetX)) data,
             mm_data = data ! k\<rparr>))"
proof -
  let ?h = "map (\<lambda>n. getMipmap_texel X T tex (kernel_px width) offsetX level (int n)) [0..<width]"
  have h: "?h ! j = tex1DLod X T tex (f32 (f32 (f32 (of_nat j) + offsetX) * kernel_px width)) level"
    if "j < width" for j
    using that by (simp add: getMipmap_texel_eq)
  have w32: "width < 2 ^ 32" using assms(3) by simp
  have len: "width \<le> length ?h" by simp
  have nk: "\<not> hipTextureSamplingVerify X T fm False (?h ! k)
           (getExpectedValue X T am fm False width (f32 (f32 (of_nat k) + offsetX)) data)"
    using assms(9) h[OF assms(8)] by simp
  have before: "\<forall>j. 0 \<le> j \<and> j < k \<longrightarrow>
           hipTextureSamplingVerify X T fm False (?h ! j)
             (getExpectedValue X T am fm False width (f32 (f32 (of_nat j) + offsetX)) data)"
  proof (intro allI impI)
    fix j assume "0 \<le> j \<and> j < k"
    then have "j < k" "j < width" using assms(8) by simp_all
    then show "hipTextureSamplingVerify X T fm False (?h ! j)
             (getExpectedValue X T am fm False width (f32 (f32 (of_nat j) + offsetX)) data)"
      using assms(10) h[of j] by simp
  qed
  have "verifyMipmapLevel_loop X T fm am ?h data width level offsetX 0 =
         Some (Inl (SamplingMismatch
            \<lparr>mm_level = level, mm_index = k,
             mm_coordinate = f32 (f32 (of_nat k) + offsetX),
             mm_gpuOutput = ?h ! k,
             mm_cpuExpected = getExpectedValue X T am fm False width (f32 (f32 (of_nat k) + offsetX)) data,
             mm_data = data ! k\<rparr>))"
    by (rule verifyMipmapLevel_loop_first_mismatch[OF w32 len assms(4) assms(8) nk before]) simp
  then show ?thesis
    using h[OF assms(8)]
    by (simp add: verifyMipmapLevel_unfold[OF assms(1-3,5-7)])
qed

lemma verifyMipmapLevel_all_match:
  assumes "0 < sizeofT T" "sizeofT T \<le> 16" "width \<le> 2 ^ 31"
    and "hipApi X (HipCall hipHostMalloc 161 (nat \<lfloor>level\<rfloor>)) = hipSuccess"
    and "hipApi X (HipCall hipDeviceSynchronize 168 (nat \<lfloor>level\<rfloor>)) = hipSuccess"
    and "hipApi X (HipCall hipGetLastError 169 (nat \<lfloor>level\<rfloor>)) = hipSuccess"
    and "\<forall>j<width. hipTextureSamplingVerify X T fm False
             (tex1DLod X T tex (f32 (f32 (f32 (of_nat j) + offsetX) * kernel_px width)) level)
             (getExpectedValue X T am fm False width (f32 (f32 (of_nat j) + offsetX)) data)"
  shows "verifyMipmapLevel X T fm am tex data width level offsetX =
         HIP_CHECK_o X (HipCall hipHostFree 190 (nat \<lfloor>level\<rfloor>)) (Some (Inr ()))"
proof -
  let ?h = "map (\<lambda>n. getMipmap_texel X T tex (kernel_px width) offsetX level (int n)) [0..<width]"
  have w32: "width < 2 ^ 32" using assms(3) by simp
  have len: "width \<le> length ?h" by simp
  have all: "\<forall>j. 0 \<le> j \<and> j < width \<longrightarrow>
           hipTextureSamplingVerify X T fm False (?h ! j)
             (getExpectedValue X T am fm False width (f32 (f32 (of_nat j) + offsetX)) data)"
    using assms(7) by (simp add: getMipmap_texel_eq)
  have "verifyMipmapLevel_loop X T fm am ?h data width level offsetX 0 = Some (Inr ())"
    by (rule verifyMipmapLevel_loop_all_match[OF w32 len all])
  then show ?thesis
    by (simp add: verifyMipmapLevel_unfold[OF assms(1-6)])
qed

lemma verifyMipmapLevel_pass_only_if_all_match:
  assumes "0 < sizeofT T" "sizeofT T \<le> 16" "width \<le> 2 ^ 31" "width \<le> length data"
    and "hipApi X (HipCall hipHostMalloc 161 (nat \<lfloor>level\<rfloor>)) = hipSuccess"
    and "hipApi X (HipCall hipDeviceSynchronize 168 (nat \<lfloor>level\<rfloor>)) = hipSuccess"
    and "hipApi X (HipCall hipGetLastError 169 (nat \<lfloor>level\<rfloor>)) = hipSuccess"
    and "verifyMipmapLevel X T fm am tex data width level offsetX = Some (Inr ())"
  shows "\<forall>j<width. hipTextureSamplingVerify X T fm False
             (tex1DLod X T tex (f32 (f32 (f32 (of_nat j) + offsetX) * kernel_px width)) level)
             (getExpectedValue X T am fm False width (f32 (f32 (of_nat j) + offsetX)) data)"
proof (rule ccontr)
  let ?P = "\<lambda>j. j < width \<and> \<not> hipTextureSamplingVerify X T fm False
             (tex1DLod X T tex (f32 (f32 (f32 (of_nat j) + offsetX) * kernel_px width)) level)
             (getExpectedValue X T am fm False width (f32 (f32 (of_nat j) + offsetX)) data)"
  assume "\<not> (\<forall>j<width. hipTextureSamplingVerify X T fm False
             (tex1DLod X T tex (f32 (f32 (f32 (of_nat j) + offsetX) * kernel_px width)) level)
             (getExpectedValue X T am fm False width (f32 (f32 (of_nat j) + offsetX)) data))"
  then have "\<exists>j. ?P j" by blast
  then obtain k where k: "?P k" "\<forall>m<k. \<not> ?P m"
    using exists_least_iff[of ?P] by blast
  have before: "\<forall>j<k. hipTextureSamplingVerify X T fm False
             (tex1DLod X T tex (f32 (f32 (f32 (of_nat j) + offsetX) * kernel_px width)) level)
             (getExpectedValue X T am fm False width (f32 (f32 (of_nat j) + offsetX)) data)"
    using k by auto
  from verifyMipmapLevel_first_mismatch[OF assms(1-7) _ _ before] k(1) assms(8)
  show False by simp
qed

lemma verify_levels_first:
  "verify_level X A tex offsetX level d = Some (Inl f) \<Longrightarrow>
   verify_levels X A tex offsetX level (d # ds) = Some (Inl f)"
  by simp

text \<open>
  Claim C6. When the comparison of a level detects a mismatch, the first mismatching
  index \<open>k\<close> ends \<^verbatim>\<open>verifyMipmapLevel\<close> with the \<^verbatim>\<open>REQUIRE(false)\<close> that follows the
  \<^verbatim>\<open>WARN\<close> message, which carries the level, the index and the coordinate
  \<^verbatim>\<open>i + offsetX\<close>, the observed and the expected value, and \<^verbatim>\<open>data[i]\<close> of the source
  level. No mismatch is swallowed: the level passes only if every texel matched; and the
  failure of a level is the result of the loop over the levels, so no later level is
  compared.
\<close>

theorem verifyMipmapLevel_reports_first_mismatch:
  assumes "0 < sizeofT T" "sizeofT T \<le> 16" "width \<le> 2 ^ 31" "width \<le> length data"
    and "hipApi X (HipCall hipHostMalloc 161 (nat \<lfloor>level\<rfloor>)) = hipSuccess"
    and "hipApi X (HipCall hipDeviceSynchronize 168 (nat \<lfloor>level\<rfloor>)) = hipSuccess"
    and "hipApi X (HipCall hipGetLastError 169 (nat \<lfloor>level\<rfloor>)) = hipSuccess"
  shows
   "(\<forall>k<width.
       \<not> hipTextureSamplingVerify X T fm False
            (tex1DLod X T tex (f32 (f32 (f32 (of_nat k) + offsetX) * kernel_px width)) level)
            (getExpectedValue X T am fm False width (f32 (f32 (of_nat k) + offsetX)) data) \<and>
       (\<forall>j<k. hipTextureSamplingVerify X T fm False
            (tex1DLod X T tex (f32 (f32 (f32 (of_nat j) + offsetX) * kernel_px width)) level)
            (getExpectedValue X T am fm False width (f32 (f32 (of_nat j) + offsetX)) data)) \<longrightarrow>
       verifyMipmapLevel X T fm am tex data width level offsetX =
         Some (Inl (SamplingMismatch
            \<lparr>mm_level = level, mm_index = k,
             mm_coordinate = f32 (f32 (of_nat k) + offsetX),
             mm_gpuOutput = tex1DLod X T tex (f32 (f32 (f32 (of_nat k) + offsetX) * kernel_px width)) level,
             mm_cpuExpected = getExpectedValue X T am fm False width (f32 (f32 (of_nat k) + offsetX)) data,
             mm_data = data ! k\<rparr>))) \<and>
    (verifyMipmapLevel X T fm am tex data width level offsetX = Some (Inr ()) \<longrightarrow>
       (\<forall>j<width. hipTextureSamplingVerify X T fm False
            (tex1DLod X T tex (f32 (f32 (f32 (of_nat j) + offsetX) * kernel_px width)) level)
            (getExpectedValue X T am fm False width (f32 (f32 (of_nat j) + offsetX)) data))) \<and>
    (\<forall>A L d ds f. verify_level X A tex offsetX L d = Some (Inl f) \<longrightarrow>
       verify_levels X A tex offsetX L (d # ds) = Some (Inl f))"
proof (intro conjI allI impI)
  fix k
  assume "k < width"
    and "\<not> hipTextureSamplingVerify X T fm False
            (tex1DLod X T tex (f32 (f32 (f32 (of_nat k) + offsetX) * kernel_px width)) level)
            (getExpectedValue X T am fm False width (f32 (f32 (of_nat k) + offsetX)) data) \<and>
       (\<forall>j<k. hipTextureSamplingVerify X T fm False
            (tex1DLod X T tex (f32 (f32 (f32 (of_nat j) + offsetX) * kernel_px width)) level)
            (getExpectedValue X T am fm False width (f32 (f32 (of_nat j) + offsetX)) data))"
  then show "verifyMipmapLevel X T fm am tex data width level offsetX =
         Some (Inl (SamplingMismatch
            \<lparr>mm_level = level, mm_index = k,
             mm_coordinate = f32 (f32 (of_nat k) + offsetX),
             mm_gpuOutput = tex1DLod X T tex (f32 (f32 (f32 (of_nat k) + offsetX) * kernel_px width)) level,
             mm_cpuExpected = getExpectedValue X T am fm False width (f32 (f32 (of_nat k) + offsetX)) data,
             mm_data = data ! k\<rparr>))"
    using verifyMipmapLevel_first_mismatch[OF assms] by blast
next
  fix j
  assume "verifyMipmapLevel X T fm am tex data width level offsetX = Some (Inr ())" "j < width"
  then show "hipTextureSamplingVerify X T fm False
            (tex1DLod X T tex (f32 (f32 (f32 (of_nat j) + offsetX) * kernel_px width)) level)
            (getExpectedValue X T am fm False width (f32 (f32 (of_nat j) + offsetX)) data)"
    using verifyMipmapLevel_pass_only_if_all_match[OF assms] by blast
next
  fix A L d ds f
  assume "verify_level X A tex offsetX L d = Some (Inl f)"
  then show "verify_levels X A tex offsetX L (d # ds) = Some (Inl f)"
    by (rule verify_levels_first)
qed

section \<open>Exactly representable numbers\<close>

lemma round_half_even_of_int [simp]: "round_half_even (of_int m) = m"
  by (simp add: round_half_even_def)

lemma f32_of_nat_exact:
  assumes "n < 2 ^ 24"
  shows "f32 (of_nat n) = of_nat n"
proof (cases "n = 0")
  case True
  then show ?thesis by simp
next
  case False
  then have pos: "0 < n" by simp
  have fl: "floorlog 2 n \<le> 24"
    using assms by (simp add: floorlog_le_iff)
  have fl1: "1 \<le> floorlog 2 n"
    using pos by (simp add: floorlog_def)
  define k where "k = 24 - floorlog 2 n"
  have be: "binary_exponent \<bar>of_nat n\<bar> = int (floorlog 2 n) - 1"
    using pos by (simp add: binary_exponent_def)
  have kk: "int 24 - 1 - max (- 126) (int (floorlog 2 n) - 1) = int k"
    using fl fl1 by (simp add: k_def max_def)
  have p: "pow2 (int k) = 2 ^ k"
    by (simp add: pow2_def)
  have "\<bar>rat_of_nat n\<bar> * 2 ^ k = of_int (int (n * 2 ^ k))"
    by simp
  then have r: "round_half_even (\<bar>rat_of_nat n\<bar> * 2 ^ k) = int (n * 2 ^ k)"
    by (simp only: round_half_even_of_int)
  have "f32 (of_nat n) = sgn (rat_of_nat n) * of_int (int (n * 2 ^ k)) / 2 ^ k"
    using False by (simp only: f32_def round_to_precision_def be kk p r Let_def) simp
  then show ?thesis
    using pos by simp
qed

lemma level_float: "L < 2 ^ 24 \<Longrightarrow> 0 \<le> f32 (of_nat L) \<and> nat \<lfloor>f32 (of_nat L)\<rfloor> = L"
  by (simp add: f32_of_nat_exact)

section \<open>The loop over the levels\<close>

lemma verify_levels_pass_iff:
  assumes "\<forall>c. hipApi X c = hipSuccess"
  shows "verify_levels X A tex offsetX L0 ds = Some (Inr ()) \<longleftrightarrow>
         (\<forall>n<length ds. verify_level X A tex offsetX (L0 + n) (ds ! n) = Some (Inr ()))"
proof (induction ds arbitrary: L0)
  case Nil
  then show ?case by simp
next
  case (Cons d ds)
  have "verify_levels X A tex offsetX L0 (d # ds) = Some (Inr ()) \<longleftrightarrow>
        verify_level X A tex offsetX L0 d = Some (Inr ()) \<and>
        verify_levels X A tex offsetX (L0 + 1) ds = Some (Inr ())"
    using assms by (auto simp: HIP_CHECK_o_def split: option.splits sum.splits)
  also have "\<dots> \<longleftrightarrow> verify_level X A tex offsetX L0 d = Some (Inr ()) \<and>
        (\<forall>n<length ds. verify_level X A tex offsetX (L0 + 1 + n) (ds ! n) = Some (Inr ()))"
    by (simp only: Cons.IH)
  also have "\<dots> \<longleftrightarrow> (\<forall>n<length (d # ds). verify_level X A tex offsetX (L0 + n) ((d # ds) ! n) = Some (Inr ()))"
    by (auto simp: nth_Cons less_Suc_eq_0_disj split: nat.splits)
  finally show ?case .
qed

lemma verify_level_eq:
  assumes "length (lvl_data d) = ext_width (lvl_e d)" "ext_width (lvl_e d) \<le> 2 ^ 31"
  shows "verify_level X A tex offsetX L d =
         verifyMipmapLevel X (compared_type X A) (filterModeT A) (addressModeT A) tex
           (compared_data X A d) (ext_width (lvl_e d)) (f32 (of_nat L)) offsetX"
proof -
  have "\<not> (2::nat) ^ 32 \<le> ext_width (lvl_e d)" using assms(2) by simp
  then show ?thesis
    using assms(1)
    by (cases "readModeT A") (simp_all add: verify_level_def compared_type_def compared_data_def)
qed

lemma compared_data_length:
  "length (lvl_data d) = ext_width (lvl_e d) \<Longrightarrow> length (compared_data X A d) = ext_width (lvl_e d)"
  by (cases "readModeT A") (simp_all add: compared_data_def)

section \<open>The expected value in the reference model\<close>

lemma expected_is_reference_sample:
  assumes "0 < width" "0 \<le> lod" "nat \<lfloor>lod\<rfloor> < length chain" "chain ! nat \<lfloor>lod\<rfloor> = data"
    "length data = width"
  shows "getExpectedValue_spec T am fm False width x data =
         sampleAtLevel chain (x / of_nat width) lod (filter_of fm) (addressing_of am)"
  using assms by (simp add: getExpectedValue_spec_def sampleAtLevel_def sample_def)

lemma verifyMipmapLevel_pass_iff:
  assumes "0 < sizeofT T" "sizeofT T \<le> 16" "width \<le> 2 ^ 31" "width \<le> length data"
    and "\<forall>c. hipApi X c = hipSuccess"
  shows "verifyMipmapLevel X T fm am tex data width level offsetX = Some (Inr ()) \<longleftrightarrow>
         (\<forall>j<width. hipTextureSamplingVerify X T fm False
             (tex1DLod X T tex (f32 (f32 (f32 (of_nat j) + offsetX) * kernel_px width)) level)
             (getExpectedValue X T am fm False width (f32 (f32 (of_nat j) + offsetX)) data))"
proof
  assume "verifyMipmapLevel X T fm am tex data width level offsetX = Some (Inr ())"
  then show "\<forall>j<width. hipTextureSamplingVerify X T fm False
             (tex1DLod X T tex (f32 (f32 (f32 (of_nat j) + offsetX) * kernel_px width)) level)
             (getExpectedValue X T am fm False width (f32 (f32 (of_nat j) + offsetX)) data)"
    using verifyMipmapLevel_pass_only_if_all_match[OF assms(1-4)] assms(5) by blast
next
  assume "\<forall>j<width. hipTextureSamplingVerify X T fm False
             (tex1DLod X T tex (f32 (f32 (f32 (of_nat j) + offsetX) * kernel_px width)) level)
             (getExpectedValue X T am fm False width (f32 (f32 (of_nat j) + offsetX)) data)"
  then have "verifyMipmapLevel X T fm am tex data width level offsetX =
         HIP_CHECK_o X (HipCall hipHostFree 190 (nat \<lfloor>level\<rfloor>)) (Some (Inr ()))"
    using verifyMipmapLevel_all_match[OF assms(1-3)] assms(5) by blast
  then show "verifyMipmapLevel X T fm am tex data width level offsetX = Some (Inr ())"
    using assms(5) by (simp add: HIP_CHECK_o_def)
qed

text \<open>
  Claim C5. With the helpers as the specification describes them, the loop over the
  levels passes exactly when, for every level \<open>L\<close> of the chain and every texel index
  \<open>i\<close> below the width of that level, the hardware sample at the normalised coordinate
  \<^verbatim>\<open>(i + offsetX) * px\<close> and level \<open>L\<close> is approximately equal to the reference sample of
  level \<open>L\<close> at the normalised coordinate \<open>(i + offsetX) / width(L)\<close> under the filter and
  addressing mode of the instantiation (the source hands the reference the same position
  in texel units, \<^verbatim>\<open>i + offsetX\<close>, a \<^verbatim>\<open>float\<close> sum). Approximate equality is equality
  for integer texels and equality within the tolerance, channel by channel, for
  floating-point texels, which is what normalised storage is compared as.
\<close>

theorem verify_levels_compares_reference:
  assumes "getExpectedValue X = getExpectedValue_spec"
    and "hipTextureSamplingVerify X = hipTextureSamplingVerify_spec tol"
    and "\<forall>c. hipApi X c = hipSuccess"
    and "0 < sizeofT (compared_type X A)" "sizeofT (compared_type X A) \<le> 16"
    and "list_all (\<lambda>d. length (lvl_data d) = ext_width (lvl_e d) \<and>
                       1 \<le> ext_width (lvl_e d) \<and> ext_width (lvl_e d) \<le> 2 ^ 31) chain"
    and "length chain \<le> 2 ^ 24"
  shows
   "(verify_levels X A tex offsetX 0 chain = Some (Inr ()) \<longleftrightarrow>
      (\<forall>L<length chain. \<forall>i<ext_width (lvl_e (chain ! L)).
         approx_equal tol
           (tex1DLod X (compared_type X A) tex
              (f32 (f32 (f32 (of_nat i) + offsetX) * kernel_px (ext_width (lvl_e (chain ! L)))))
              (f32 (of_nat L)))
           (sampleAtLevel (map (compared_data X A) chain)
              (f32 (f32 (of_nat i) + offsetX) / of_nat (ext_width (lvl_e (chain ! L))))
              (f32 (of_nat L)) (filter_of (filterModeT A)) (addressing_of (addressModeT A))))) \<and>
    (\<forall>xs ys. approx_equal tol (IntPixel xs) (IntPixel ys) = (xs = ys)) \<and>
    (\<forall>xs ys. approx_equal tol (FloatPixel xs) (FloatPixel ys) =
               list_all2 (\<lambda>x y. \<bar>x - y\<bar> \<le> tol) xs ys)"
proof -
  have wf: "length (lvl_data (chain ! L)) = ext_width (lvl_e (chain ! L))"
      "1 \<le> ext_width (lvl_e (chain ! L))" "ext_width (lvl_e (chain ! L)) \<le> 2 ^ 31"
    if "L < length chain" for L
    using assms(6) that by (simp_all add: list_all_length)
  have level: "verify_level X A tex offsetX L (chain ! L) = Some (Inr ()) \<longleftrightarrow>
      (\<forall>i<ext_width (lvl_e (chain ! L)).
         approx_equal tol
           (tex1DLod X (compared_type X A) tex
              (f32 (f32 (f32 (of_nat i) + offsetX) * kernel_px (ext_width (lvl_e (chain ! L)))))
              (f32 (of_nat L)))
           (sampleAtLevel (map (compared_data X A) chain)
              (f32 (f32 (of_nat i) + offsetX) / of_nat (ext_width (lvl_e (chain ! L))))
              (f32 (of_nat L)) (filter_of (filterModeT A)) (addressing_of (addressModeT A))))"
    if L: "L < length chain" for L
  proof -
    let ?d = "chain ! L"
    let ?w = "ext_width (lvl_e ?d)"
    have L24: "L < 2 ^ 24" using L assms(7) by simp
    note lf = level_float[OF L24]
    have len: "length (compared_data X A ?d) = ?w"
      by (rule compared_data_length[OF wf(1)[OF L]])
    have ex: "getExpectedValue X (compared_type X A) (addressModeT A) (filterModeT A) False ?w x
                (compared_data X A ?d) =
              sampleAtLevel (map (compared_data X A) chain) (x / of_nat ?w) (f32 (of_nat L))
                (filter_of (filterModeT A)) (addressing_of (addressModeT A))" for x
      unfolding assms(1)
      by (rule expected_is_reference_sample) (use wf[OF L] lf L len in simp_all)
    have "verify_level X A tex offsetX L ?d =
         verifyMipmapLevel X (compared_type X A) (filterModeT A) (addressModeT A) tex
           (compared_data X A ?d) ?w (f32 (of_nat L)) offsetX"
      by (rule verify_level_eq[OF wf(1,3)[OF L]])
    also have "\<dots> = Some (Inr ()) \<longleftrightarrow>
         (\<forall>j<?w. hipTextureSamplingVerify X (compared_type X A) (filterModeT A) False
             (tex1DLod X (compared_type X A) tex (f32 (f32 (f32 (of_nat j) + offsetX) * kernel_px ?w))
                (f32 (of_nat L)))
             (getExpectedValue X (compared_type X A) (addressModeT A) (filterModeT A) False ?w
                (f32 (f32 (of_nat j) + offsetX)) (compared_data X A ?d)))"
      by (rule verifyMipmapLevel_pass_iff[OF assms(4,5) wf(3)[OF L] _ assms(3)]) (simp add: len)
    finally show ?thesis
      by (simp add: ex assms(2) hipTextureSamplingVerify_spec_def)
  qed
  have "verify_levels X A tex offsetX 0 chain = Some (Inr ()) \<longleftrightarrow>
        (\<forall>L<length chain. verify_level X A tex offsetX L (chain ! L) = Some (Inr ()))"
    using verify_levels_pass_iff[OF assms(3), of A tex offsetX 0 chain] by simp
  then have main: "verify_levels X A tex offsetX 0 chain = Some (Inr ()) \<longleftrightarrow>
      (\<forall>L<length chain. \<forall>i<ext_width (lvl_e (chain ! L)).
         approx_equal tol
           (tex1DLod X (compared_type X A) tex
              (f32 (f32 (f32 (of_nat i) + offsetX) * kernel_px (ext_width (lvl_e (chain ! L)))))
              (f32 (of_nat L)))
           (sampleAtLevel (map (compared_data X A) chain)
              (f32 (f32 (of_nat i) + offsetX) / of_nat (ext_width (lvl_e (chain ! L))))
              (f32 (of_nat L)) (filter_of (filterModeT A)) (addressing_of (addressModeT A))))"
    using level by simp
  show ?thesis
    using main by (simp add: approx_equal_def)
qed

lemma sample_constant:
  "0 < n \<Longrightarrow> sample x (replicate n c) (int n) Nearest Clamp = c"
  by (auto simp: sample_def sample_texel_units_def resolve_def resolved_pixel_def)

theorem verify_levels_compares_reference_witness:
  "getExpectedValue (reference_externals 0) = getExpectedValue_spec \<and>
   hipTextureSamplingVerify (reference_externals 0) = hipTextureSamplingVerify_spec 0 \<and>
   (\<forall>c. hipApi (reference_externals 0) c = hipSuccess) \<and>
   0 < sizeofT (compared_type (reference_externals 0) example_args) \<and>
   sizeofT (compared_type (reference_externals 0) example_args) \<le> 16 \<and>
   verify_levels (reference_externals 0) example_args
     (mipmap_texture example_args (\<lambda>L. replicate (if L = 0 then 2 else 1) (IntPixel [7])) 2)
     (49 / 100) 0
     [\<lparr>lvl_data = replicate 2 (IntPixel [7]), lvl_e = \<lparr>ext_width = 2, ext_height = 0, ext_depth = 0\<rparr>\<rparr>,
      \<lparr>lvl_data = replicate 1 (IntPixel [7]), lvl_e = \<lparr>ext_width = 1, ext_height = 0, ext_depth = 0\<rparr>\<rparr>]
   = Some (Inr ())"
proof -
  let ?X = "reference_externals 0"
  let ?m = "\<lambda>L::nat. replicate (if L = 0 then 2 else 1) (IntPixel [7])"
  let ?tex = "mipmap_texture example_args ?m 2"
  let ?chain = "[\<lparr>lvl_data = replicate 2 (IntPixel [7]), lvl_e = \<lparr>ext_width = 2, ext_height = 0, ext_depth = 0\<rparr>\<rparr>,
      \<lparr>lvl_data = replicate 1 (IntPixel [7]), lvl_e = \<lparr>ext_width = 1, ext_height = 0, ext_depth = 0\<rparr>\<rparr>]"
  have h1: "getExpectedValue ?X = getExpectedValue_spec"
    and h2: "hipTextureSamplingVerify ?X = hipTextureSamplingVerify_spec 0"
    and h3: "\<forall>c. hipApi ?X c = hipSuccess"
    by (simp_all add: reference_externals_def)
  have ct: "compared_type ?X example_args = T_int"
    by (simp add: compared_type_def example_args_def)
  have h4: "0 < sizeofT (compared_type ?X example_args)"
    and h5: "sizeofT (compared_type ?X example_args) \<le> 16"
    by (simp_all add: ct)
  have h6: "list_all (\<lambda>d. length (lvl_data d) = ext_width (lvl_e d) \<and>
                       1 \<le> ext_width (lvl_e d) \<and> ext_width (lvl_e d) \<le> 2 ^ 31) ?chain"
    by simp
  have h7: "length ?chain \<le> 2 ^ 24" by simp
  note t = verify_levels_compares_reference[where tex = ?tex and offsetX = "49 / 100",
      OF h1 h2 h3 h4 h5 h6 h7]
  have cd: "map (compared_data ?X example_args) ?chain = [replicate 2 (IntPixel [7]), replicate 1 (IntPixel [7])]"
    by (simp add: compared_data_def example_args_def)
  have obs: "tex1DLod ?X T ?tex x (f32 (of_nat L)) = IntPixel [7]" if "L < 2" for T x L
  proof -
    have "L < 2 ^ 24" using that by simp
    note lf = level_float[OF this]
    show ?thesis
      using lf sample_constant[of "if L = 0 then 2 else 1" x "IntPixel [7]"]
      by (simp add: reference_externals_def reference_tex1DLod_def mipmap_texture_def
          example_args_def filter_of_def addressing_of_def)
  qed
  have exp: "sampleAtLevel [replicate 2 (IntPixel [7]), replicate 1 (IntPixel [7])] x (f32 (of_nat L))
        (filter_of (filterModeT example_args)) (addressing_of (addressModeT example_args)) = IntPixel [7]"
    if "L < 2" for x L
  proof -
    have "L < 2 ^ 24" using that by simp
    note lf = level_float[OF this]
    have "L = 0 \<or> L = 1" using that by auto
    then show ?thesis
      using lf sample_constant[of 2 x "IntPixel [7]"] sample_constant[of 1 x "IntPixel [7]"]
      by (auto simp: sampleAtLevel_def example_args_def filter_of_def addressing_of_def)
  qed
  have "\<forall>L<length ?chain. \<forall>i<ext_width (lvl_e (?chain ! L)).
         approx_equal 0
           (tex1DLod ?X (compared_type ?X example_args) ?tex
              (f32 (f32 (f32 (of_nat i) + 49 / 100) * kernel_px (ext_width (lvl_e (?chain ! L)))))
              (f32 (of_nat L)))
           (sampleAtLevel (map (compared_data ?X example_args) ?chain)
              (f32 (f32 (of_nat i) + 49 / 100) / of_nat (ext_width (lvl_e (?chain ! L))))
              (f32 (of_nat L)) (filter_of (filterModeT example_args)) (addressing_of (addressModeT example_args)))"
  proof (intro allI impI)
    fix L i assume "L < length ?chain"
    then have L: "L < 2" by simp
    show "approx_equal 0
           (tex1DLod ?X (compared_type ?X example_args) ?tex
              (f32 (f32 (f32 (of_nat i) + 49 / 100) * kernel_px (ext_width (lvl_e (?chain ! L)))))
              (f32 (of_nat L)))
           (sampleAtLevel (map (compared_data ?X example_args) ?chain)
              (f32 (f32 (of_nat i) + 49 / 100) / of_nat (ext_width (lvl_e (?chain ! L))))
              (f32 (of_nat L)) (filter_of (filterModeT example_args)) (addressing_of (addressModeT example_args)))"
      unfolding cd obs[OF L] exp[OF L] by (simp add: approx_equal_def)
  qed
  with t have "verify_levels ?X example_args ?tex (49 / 100) 0 ?chain = Some (Inr ())"
    by blast
  with h1 h2 h3 h4 h5 show ?thesis by blast
qed

theorem verifyMipmapLevel_reports_first_mismatch_witness:
  "0 < sizeofT T_int \<and> sizeofT T_int \<le> 16 \<and> (2::nat) \<le> 2 ^ 31 \<and>
   2 \<le> length [IntPixel [0], IntPixel [0]] \<and>
   hipApi ((reference_externals 0)\<lparr>tex1DLod := (\<lambda>R tex x lod. IntPixel [1])\<rparr>)
     (HipCall hipHostMalloc 161 (nat \<lfloor>0::rat\<rfloor>)) = hipSuccess \<and>
   verifyMipmapLevel ((reference_externals 0)\<lparr>tex1DLod := (\<lambda>R tex x lod. IntPixel [1])\<rparr>)
     T_int hipFilterModePoint hipAddressModeClamp
     (mipmap_texture example_args example_allocated 3)
     [IntPixel [0], IntPixel [0]] 2 0 0 =
   Some (Inl (SamplingMismatch
      \<lparr>mm_level = 0, mm_index = 0, mm_coordinate = 0,
       mm_gpuOutput = IntPixel [1], mm_cpuExpected = IntPixel [0], mm_data = IntPixel [0]\<rparr>))"
proof -
  let ?X = "(reference_externals 0)\<lparr>tex1DLod := (\<lambda>R tex x lod. IntPixel [1])\<rparr>"
  let ?data = "[IntPixel [0], IntPixel [0]]"
  let ?tex = "mipmap_texture example_args example_allocated 3"
  have sz: "0 < sizeofT T_int" "sizeofT T_int \<le> 16" by simp_all
  have w: "(2::nat) \<le> 2 ^ 31" "2 \<le> length ?data" by simp_all
  have api: "hipApi ?X c = hipSuccess" for c
    by (simp add: reference_externals_def)
  note t = verifyMipmapLevel_reports_first_mismatch[where level = 0 and fm = hipFilterModePoint
      and tex = ?tex and offsetX = 0 and am = hipAddressModeClamp, OF sz w api api api]
  have ex: "getExpectedValue ?X T_int hipAddressModeClamp hipFilterModePoint False 2
              (f32 (f32 (of_nat 0) + 0)) ?data = IntPixel [0]"
    by (simp add: reference_externals_def getExpectedValue_spec_def sample_texel_units_def
        resolve_def resolved_pixel_def filter_of_def addressing_of_def)
  have ob: "tex1DLod ?X T_int ?tex x lod = IntPixel [1]" for x lod
    by simp
  have nm: "\<not> hipTextureSamplingVerify ?X T_int hipFilterModePoint False (IntPixel [1]) (IntPixel [0])"
    by (simp add: reference_externals_def hipTextureSamplingVerify_spec_def approx_equal_def)
  have "verifyMipmapLevel ?X T_int hipFilterModePoint hipAddressModeClamp ?tex ?data 2 0 0 =
     Some (Inl (SamplingMismatch
      \<lparr>mm_level = 0, mm_index = 0, mm_coordinate = f32 (f32 (of_nat 0) + 0),
       mm_gpuOutput = tex1DLod ?X T_int ?tex (f32 (f32 (f32 (of_nat 0) + 0) * kernel_px 2)) 0,
       mm_cpuExpected = getExpectedValue ?X T_int hipAddressModeClamp hipFilterModePoint False 2
              (f32 (f32 (of_nat 0) + 0)) ?data,
       mm_data = ?data ! 0\<rparr>))"
  proof (rule t[THEN conjunct1, rule_format, of 0])
    show "(0::nat) < 2" by simp
    show "\<not> hipTextureSamplingVerify ?X T_int hipFilterModePoint False
            (tex1DLod ?X T_int ?tex (f32 (f32 (f32 (of_nat 0) + 0) * kernel_px 2)) 0)
            (getExpectedValue ?X T_int hipAddressModeClamp hipFilterModePoint False 2
               (f32 (f32 (of_nat 0) + 0)) ?data) \<and>
       (\<forall>j<0. hipTextureSamplingVerify ?X T_int hipFilterModePoint False
            (tex1DLod ?X T_int ?tex (f32 (f32 (f32 (of_nat j) + 0) * kernel_px 2)) 0)
            (getExpectedValue ?X T_int hipAddressModeClamp hipFilterModePoint False 2
               (f32 (f32 (of_nat j) + 0)) ?data))"
      unfolding ex ob using nm by simp
  qed
  then have "verifyMipmapLevel ?X T_int hipFilterModePoint hipAddressModeClamp ?tex ?data 2 0 0 =
     Some (Inl (SamplingMismatch
      \<lparr>mm_level = 0, mm_index = 0, mm_coordinate = 0,
       mm_gpuOutput = IntPixel [1], mm_cpuExpected = IntPixel [0], mm_data = IntPixel [0]\<rparr>))"
    unfolding ex ob by simp
  with sz w api show ?thesis by simp
qed

section \<open>The reference model\<close>

text \<open>
  Claim C7. Read as \<open>NormalizedFloat\<close>, an 8-bit unsigned channel that stores 255 yields
  the float 1.0 and one that stores 0 yields 0.0; with this read for
  \<^verbatim>\<open>getNormalizedFloatType\<close>, the data the test compares against for a level
  \<open>[255, 0]\<close> of \<^verbatim>\<open>uchar\<close> texels in \<^verbatim>\<open>hipReadModeNormalizedFloat\<close> is \<open>[1.0, 0.0]\<close>.
\<close>

theorem normalized_read_uchar_ends:
  "getNormalizedFloatType_spec T_uchar (IntPixel [255]) = FloatPixel [1] \<and>
   getNormalizedFloatType_spec T_uchar (IntPixel [0]) = FloatPixel [0] \<and>
   compared_data (reference_externals tol)
     (example_args\<lparr>elemT := T_uchar, readModeT := hipReadModeNormalizedFloat\<rparr>)
     \<lparr>lvl_data = [IntPixel [255], IntPixel [0]],
      lvl_e = \<lparr>ext_width = 2, ext_height = 0, ext_depth = 0\<rparr>\<rparr> =
   [FloatPixel [1], FloatPixel [0]]"
  by (simp add: getNormalizedFloatType_spec_def normalized_read_def T_uchar_def
      compared_data_def reference_externals_def example_args_def)

text \<open>
  Claim C8. Under Clamp the resolver returns \<open>max(0, min(i, w - 1))\<close> with
  \<open>useBorder = false\<close>, and resolving the index it returned gives the same result: the
  resolver is idempotent, for every integer index and every width.
\<close>

theorem resolve_clamp_idempotent:
  "\<exists>j. resolve i w Clamp = (Some j, False) \<and>
        j = max 0 (min i (w - 1)) \<and>
        resolve j w Clamp = resolve i w Clamp"
  by (auto simp: resolve_def)

section \<open>The level count check of the test\<close>

text \<open>
  \<^verbatim>\<open>testMipmapTextureObj\<close> compares \<^verbatim>\<open>maxLevels\<close> with the length of the chain
  \<^verbatim>\<open>populateMipmaps\<close> returned. No other statement of the test produces that failure.
\<close>

lemma HIP_CHECK_failure:
  "HIP_CHECK X c k = Inl f \<Longrightarrow> (k = Inl f \<Longrightarrow> f \<noteq> MaxLevelsMismatch a b) \<Longrightarrow> f \<noteq> MaxLevelsMismatch a b"
  by (auto simp: HIP_CHECK_def split: if_splits)

lemma HIP_CHECK_o_failure:
  "HIP_CHECK_o X c k = Some (Inl f) \<Longrightarrow> (k = Some (Inl f) \<Longrightarrow> f \<noteq> MaxLevelsMismatch a b) \<Longrightarrow>
   f \<noteq> MaxLevelsMismatch a b"
  by (auto simp: HIP_CHECK_o_def split: if_splits)

lemma populateMipmaps_body_failure:
  "populateMipmaps_body X A st = Inl f \<Longrightarrow> f \<noteq> MaxLevelsMismatch a b"
  unfolding populateMipmaps_body_def Let_def
  by (auto elim!: HIP_CHECK_failure split: if_splits option.splits prod.splits)

lemma populateMipmaps_loop_failure:
  "populateMipmaps_loop X A st = Some (Inl f) \<Longrightarrow> f \<noteq> MaxLevelsMismatch a b"
proof (induction st rule: populateMipmaps_loop_induct[where X = X and A = A])
  case (1 st)
  show ?case
  proof (cases "ps_width st = 1")
    case True
    then show ?thesis using "1.prems" by (simp add: populateMipmaps_loop_stop)
  next
    case False
    show ?thesis
    proof (cases "populateMipmaps_body X A st")
      case (Inl g)
      then have "g = f"
        using "1.prems" populateMipmaps_loop_fail[OF False Inl] by simp
      then show ?thesis using populateMipmaps_body_failure Inl by blast
    next
      case (Inr st')
      then have "populateMipmaps_loop X A st' = Some (Inl f)"
        using "1.prems" populateMipmaps_loop_step[OF False Inr] by simp
      then show ?thesis using "1.IH"[OF False Inr] by simp
    qed
  qed
qed

lemma populateMipmaps_failure:
  "populateMipmaps X A mipmapArray extent mipmapData = Some (Inl f) \<Longrightarrow> f \<noteq> MaxLevelsMismatch a b"
  using populateMipmaps_loop_failure
  by (auto simp: populateMipmaps_def split: option.splits sum.splits)

lemma verifyMipmapLevel_loop_failure:
  assumes "verifyMipmapLevel_loop X T fm am hOutput data width level offsetX i = Some r"
  shows "r \<noteq> Inl (MaxLevelsMismatch a b)"
  using assms
proof (induction rule: verifyMipmapLevel_loop.raw_induct[rotated 1, consumes 1])
  case (1 loop X T fm am hOutput data width level offsetX i r)
  then show ?case
    by (auto simp: Let_def split: if_splits)
qed

lemma verifyMipmapLevel_failure:
  "verifyMipmapLevel X T fm am texMipmap data width level offsetX = Some (Inl f) \<Longrightarrow>
   f \<noteq> MaxLevelsMismatch a b"
  unfolding verifyMipmapLevel_def Let_def
  by (auto elim!: HIP_CHECK_o_failure dest!: verifyMipmapLevel_loop_failure[where a = a and b = b]
           split: if_splits option.splits sum.splits)

lemma verify_level_failure:
  "verify_level X A texMipmap offsetX level d = Some (Inl f) \<Longrightarrow> f \<noteq> MaxLevelsMismatch a b"
  using verifyMipmapLevel_failure
  by (auto simp: verify_level_def split: hipTextureReadMode.splits if_splits)

lemma verify_levels_failure:
  "verify_levels X A texMipmap offsetX level ds = Some (Inl f) \<Longrightarrow> f \<noteq> MaxLevelsMismatch a b"
proof (induction ds arbitrary: level)
  case Nil
  then show ?case by simp
next
  case (Cons d ds)
  show ?case
  proof (cases "verify_level X A texMipmap offsetX level d")
    case None
    then show ?thesis using Cons.prems by simp
  next
    case (Some r)
    show ?thesis
    proof (cases r)
      case (Inl g)
      then show ?thesis using Cons.prems Some verify_level_failure by fastforce
    next
      case (Inr u)
      then have "HIP_CHECK_o X (HipCall hipHostFree 286 level)
                   (verify_levels X A texMipmap offsetX (level + 1) ds) = Some (Inl f)"
        using Cons.prems Some by simp
      then show ?thesis
        using Cons.IH by (rule HIP_CHECK_o_failure)
    qed
  qed
qed

lemma maxLevels_eq:
  assumes "1 \<le> width" "width < 2 ^ 32"
  shows "to_uint (floorlog 2 width) = 1 + nat \<lfloor>log 2 (real width)\<rfloor>"
proof -
  have "floorlog 2 width \<le> 32"
    using assms by (simp add: floorlog_le_iff)
  then have "floorlog 2 width < 2 ^ 32"
    by simp
  then have "to_uint (floorlog 2 width) = floorlog 2 width"
    by (simp add: to_uint_def)
  then show ?thesis
    using assms(1) by (simp add: floorlog_def)
qed

text \<open>
  For a width from 1 below \<open>2 ^ 32\<close> the check \<^verbatim>\<open>maxLevels != mipmapData.size()\<close> never
  fails: the chain has as many levels as \<^verbatim>\<open>hipMallocMipmappedArray\<close> was asked for.
\<close>

lemma testMipmapTextureObj_levels_agree:
  assumes "1 \<le> width" "width < 2 ^ 32"
  shows "testMipmapTextureObj X A initial allocated width offsetX \<noteq> Some (Inl (MaxLevelsMismatch a b))"
proof
  let ?data = "\<lparr>lvl_data = map initial [0..<width],
                 lvl_e = \<lparr>ext_width = width, ext_height = 0, ext_depth = 0\<rparr>\<rparr>"
  let ?m = "allocated(0 := lvl_data ?data @ drop width (allocated 0))"
  assume run: "testMipmapTextureObj X A initial allocated width offsetX = Some (Inl (MaxLevelsMismatch a b))"
  show False
  proof (cases "populateMipmaps X A ?m (lvl_e ?data) [?data]")
    case None
    then show ?thesis
      using run by (auto simp: testMipmapTextureObj_def HIP_CHECK_o_def Let_def split: if_splits)
  next
    case (Some r)
    show ?thesis
    proof (cases r)
      case (Inl g)
      then have "g \<noteq> MaxLevelsMismatch a b"
        using Some populateMipmaps_failure by blast
      then show ?thesis
        using run Some Inl
        by (auto simp: testMipmapTextureObj_def HIP_CHECK_o_def Let_def split: if_splits)
    next
      case (Inr p)
      obtain m' chain where p: "p = (m', chain)" by (cases p)
      obtain st' where st': "populateMipmaps_loop X A
           \<lparr>ps_width = ext_width (lvl_e ?data), ps_level = 0, ps_mipmapArray = ?m,
            ps_mipmapData = [?data]\<rparr> = Some (Inr st')" "ps_mipmapData st' = chain"
        using populateMipmaps_Inr_loop[of X A ?m "lvl_e ?data" "[?data]" m' chain] Some Inr p by blast
      have "length chain = 1 + nat \<lfloor>log 2 (real width)\<rfloor>"
        using populateMipmaps_loop_length[OF st'(1)] assms(1) st'(2) by simp
      then have len: "to_uint (floorlog 2 width) = length chain"
        using maxLevels_eq[OF assms] by simp
      have "\<And>f. verify_levels X A (mipmap_texture A m' (to_uint (floorlog 2 width))) offsetX 0 chain
                  = Some (Inl f) \<Longrightarrow> f \<noteq> MaxLevelsMismatch a b"
        by (rule verify_levels_failure)
      then show ?thesis
        using run Some Inr p len
        by (auto simp: testMipmapTextureObj_def HIP_CHECK_o_def Let_def
                 split: if_splits option.splits sum.splits)
    qed
  qed
qed

end
